theory Spec2Isabelle
  imports Complex_Main "HOL-Library.Word" "HOL-Library.AList"
begin

section \<open>JavaScript library functions used by the relay\<close>

text \<open>
  Header values and message fields are JavaScript strings; the ones that matter here are
  byte strings (HTTP headers are decoded as Latin-1), so they are modelled as \<open>string\<close>.
  Times are milliseconds since the epoch, as \<open>Date.now()\<close> returns them.
\<close>

type_synonym millis = int
type_synonym byte = "8 word"

text \<open>
  \<open>!s\<close> on an optional string: \<open>undefined\<close> (a missing header or field) and the empty
  string are falsy, every other string is truthy.
\<close>

definition truthy :: "string option \<Rightarrow> bool" where
  "truthy v = (case v of None \<Rightarrow> False | Some s \<Rightarrow> s \<noteq> [])"

text \<open>
  \<open>parseInt(s)\<close> without a radix (ECMAScript 19.2.5): leading white space is skipped, one
  sign is read, a prefix \<open>0x\<close>/\<open>0X\<close> selects radix 16, then the longest run of digits of the
  radix is read and the rest of the string is ignored. With no digit the result is \<open>NaN\<close>,
  which is \<open>None\<close> here. The rounding of results beyond \<open>2^53\<close> is not modelled.
\<close>

definition is_ws :: "char \<Rightarrow> bool" where
  "is_ws c = (c \<in> set [CHR 0x09, CHR 0x0A, CHR 0x0B, CHR 0x0C, CHR 0x0D, CHR 0x20, CHR 0xA0])"

definition digit_val :: "char \<Rightarrow> nat option" where
  "digit_val c =
     (let n = (of_char c :: nat) in
      if 48 \<le> n \<and> n \<le> 57 then Some (n - 48)
      else if 97 \<le> n \<and> n \<le> 122 then Some (n - 87)
      else if 65 \<le> n \<and> n \<le> 90 then Some (n - 55)
      else None)"

fun digits_of :: "nat \<Rightarrow> string \<Rightarrow> nat list" where
  "digits_of radix [] = []"
| "digits_of radix (c # cs) =
     (case digit_val c of
        None \<Rightarrow> []
      | Some d \<Rightarrow> if d < radix then d # digits_of radix cs else [])"

definition digits_value :: "nat \<Rightarrow> nat list \<Rightarrow> nat" where
  "digits_value radix ds = foldl (\<lambda>a d. a * radix + d) 0 ds"

definition parseInt :: "string \<Rightarrow> int option" where
  "parseInt s =
     (let s1 = dropWhile is_ws s;
          neg = (take 1 s1 = ''-'');
          s2 = (if take 1 s1 = ''-'' \<or> take 1 s1 = ''+'' then drop 1 s1 else s1);
          hex = (take 2 s2 = ''0x'' \<or> take 2 s2 = ''0X'');
          radix = (if hex then 16 else 10);
          s3 = (if hex then drop 2 s2 else s2);
          ds = digits_of radix s3
      in if ds = [] then None
         else Some ((if neg then - 1 else 1) * int (digits_value radix ds)))"

text \<open>\<open>s.replace(pat, rep)\<close> with a string pattern replaces the first occurrence only.\<close>

fun replace_first :: "string \<Rightarrow> string \<Rightarrow> string \<Rightarrow> string" where
  "replace_first pat rep [] = (if pat = [] then rep else [])"
| "replace_first pat rep (c # cs) =
     (if take (length pat) (c # cs) = pat then rep @ drop (length pat) (c # cs)
      else c # replace_first pat rep cs)"

text \<open>
  \<open>Buffer.from(s, 'hex')\<close> reads two hex digits per byte and stops at the first pair that
  is not hexadecimal; a trailing single character is dropped.
  \<open>buf.toString('hex')\<close> writes two lower-case digits per byte.
\<close>

definition hex_val :: "char \<Rightarrow> nat option" where
  "hex_val c = (case digit_val c of None \<Rightarrow> None | Some d \<Rightarrow> if d < 16 then Some d else None)"

fun hex_decode :: "string \<Rightarrow> byte list" where
  "hex_decode (a # b # cs) =
     (case (hex_val a, hex_val b) of
        (Some x, Some y) \<Rightarrow> of_nat (16 * x + y) # hex_decode cs
      | _ \<Rightarrow> [])"
| "hex_decode _ = []"

definition hex_char :: "nat \<Rightarrow> char" where
  "hex_char d = ''0123456789abcdef'' ! d"

fun hex_encode :: "byte list \<Rightarrow> string" where
  "hex_encode [] = []"
| "hex_encode (b # bs) = hex_char (unat b div 16) # hex_char (unat b mod 16) # hex_encode bs"

section \<open>Signature verification (services/signature.ts)\<close>

text \<open>
  A request body as the route sees it: \<open>null\<close>/\<open>undefined\<close>, or an object of which the
  pipeline reads the field \<open>event_id\<close> (absent, or a string) and forwards the rest.
\<close>

datatype body = NullBody | ObjBody "string option" string

text \<open>
  The environment of the server: the HMAC-SHA256 of Node's \<open>crypto\<close> module (hex digest),
  \<open>JSON.stringify\<close>, the configured secret \<open>WEBHOOK_SECRET\<close>, the agents table
  (\<open>getAgentByRelayId\<close>: relay id to \<open>api_key_hash\<close>) and bcrypt's comparison
  (\<open>verifyApiKey\<close>, services/auth.ts).
\<close>

record env =
  hmac :: "string \<Rightarrow> string \<Rightarrow> string"
  stringify :: "body \<Rightarrow> string"
  webhook_secret :: string
  agents :: "string \<rightharpoonup> string"
  verifyApiKey :: "string \<Rightarrow> string \<Rightarrow> bool"

text \<open>\<open>crypto.timingSafeEqual\<close> throws on buffers of different length.\<close>

definition timingSafeEqual :: "byte list \<Rightarrow> byte list \<Rightarrow> bool option" where
  "timingSafeEqual a b = (if length a \<noteq> length b then None else Some (a = b))"

definition verifySignature :: "env \<Rightarrow> body \<Rightarrow> string \<Rightarrow> string \<Rightarrow> string \<Rightarrow> bool" where
  "verifySignature e payload timestamp signature secret =
     (let body = stringify e payload;
          signedPayload = timestamp @ ''.'' @ body;
          expectedSignature = hmac e secret signedPayload;
          receivedSignature = replace_first ''sha256='' '''' signature
      in case timingSafeEqual (hex_decode expectedSignature) (hex_decode receivedSignature) of
           None \<Rightarrow> False
         | Some r \<Rightarrow> r)"

section \<open>The Redis store (redis/client.ts)\<close>

text \<open>
  The server keeps five kinds of keys in one Redis keyspace, told apart by their prefix.
  The values the server writes are serialised JSON or counters; they are kept here in
  parsed form. A key carries an optional absolute expiry time, and a key whose expiry has
  passed is absent for every command.
\<close>

datatype event = Event (ev_id: string) (ev_signature: string) (ev_payload: body)

datatype rvalue =
    Marker
  | Counter int
  | Queue "event list"
  | PendingAck string millis
  | Session string millis

type_synonym redis = "string \<rightharpoonup> rvalue \<times> millis option"

datatype error = ReplayError | RateLimitError int | RedisError | TypeError

definition live :: "redis \<Rightarrow> millis \<Rightarrow> string \<Rightarrow> (rvalue \<times> millis option) option" where
  "live r now k =
     (case r k of
        None \<Rightarrow> None
      | Some (v, None) \<Rightarrow> Some (v, None)
      | Some (v, Some t) \<Rightarrow> if now < t then Some (v, Some t) else None)"

definition redis_exists :: "redis \<Rightarrow> millis \<Rightarrow> string \<Rightarrow> bool" where
  "redis_exists r now k = (live r now k \<noteq> None)"

definition redis_setex :: "redis \<Rightarrow> millis \<Rightarrow> string \<Rightarrow> int \<Rightarrow> rvalue \<Rightarrow> redis" where
  "redis_setex r now k seconds v = r(k \<mapsto> (v, Some (now + 1000 * seconds)))"

definition redis_del :: "redis \<Rightarrow> string \<Rightarrow> redis" where
  "redis_del r k = r(k := None)"

definition redis_incr :: "redis \<Rightarrow> millis \<Rightarrow> string \<Rightarrow> (error + int) \<times> redis" where
  "redis_incr r now k =
     (case live r now k of
        None \<Rightarrow> (Inr 1, r(k \<mapsto> (Counter 1, None)))
      | Some (Counter n, e) \<Rightarrow> (Inr (n + 1), r(k \<mapsto> (Counter (n + 1), e)))
      | Some (_, e) \<Rightarrow> (Inl RedisError, r))"

definition redis_pexpire :: "redis \<Rightarrow> millis \<Rightarrow> string \<Rightarrow> int \<Rightarrow> redis" where
  "redis_pexpire r now k ms =
     (case live r now k of
        None \<Rightarrow> r
      | Some (v, e) \<Rightarrow> r(k \<mapsto> (v, Some (now + ms))))"

definition redis_pttl :: "redis \<Rightarrow> millis \<Rightarrow> string \<Rightarrow> int" where
  "redis_pttl r now k =
     (case live r now k of
        None \<Rightarrow> - 2
      | Some (v, None) \<Rightarrow> - 1
      | Some (v, Some t) \<Rightarrow> t - now)"

definition redis_lpush :: "redis \<Rightarrow> millis \<Rightarrow> string \<Rightarrow> event \<Rightarrow> (error + unit) \<times> redis" where
  "redis_lpush r now k x =
     (case live r now k of
        None \<Rightarrow> (Inr (), r(k \<mapsto> (Queue [x], None)))
      | Some (Queue xs, e) \<Rightarrow> (Inr (), r(k \<mapsto> (Queue (x # xs), e)))
      | Some (_, e) \<Rightarrow> (Inl RedisError, r))"

section \<open>Replay guard and rate limiter (services/replay.ts, services/ratelimit.ts)\<close>

definition DEDUP_TTL :: int where
  "DEDUP_TTL = 10 * 60"

definition preventReplay :: "redis \<Rightarrow> millis \<Rightarrow> string \<Rightarrow> (error + unit) \<times> redis" where
  "preventReplay r now eventId =
     (let key = ''event:processed:'' @ eventId in
      if redis_exists r now key then (Inl ReplayError, r)
      else (Inr (), redis_setex r now key DEDUP_TTL Marker))"

definition RATE_LIMIT_WINDOW :: int where
  "RATE_LIMIT_WINDOW = 60 * 1000"

definition RATE_LIMIT_MAX :: int where
  "RATE_LIMIT_MAX = 100"

record rate_info =
  limit :: int
  remaining :: int
  reset :: int

definition checkRateLimit :: "redis \<Rightarrow> millis \<Rightarrow> string \<Rightarrow> (error + rate_info) \<times> redis" where
  "checkRateLimit r now relayId =
     (let key = ''ratelimit:'' @ relayId in
      case redis_incr r now key of
        (Inl err, r1) \<Rightarrow> (Inl err, r1)
      | (Inr count, r1) \<Rightarrow>
          (let r2 = (if count = 1 then redis_pexpire r1 now key RATE_LIMIT_WINDOW else r1);
               ttl = redis_pttl r2 now key
           in if count > RATE_LIMIT_MAX then (Inl (RateLimitError ttl), r2)
              else (Inr \<lparr>limit = RATE_LIMIT_MAX,
                         remaining = max 0 (RATE_LIMIT_MAX - count),
                         reset = now + ttl\<rparr>, r2)))"

section \<open>The connection registry (websocket/manager.ts)\<close>

text \<open>
  A channel is identified by a number. For every channel the server state holds whether
  it is open, the frames sent on it so far (oldest first), and the two variables
  \<open>authenticated\<close> and \<open>relayId\<close> of the closure that \<open>handleConnection\<close> creates for it.
  \<open>send\<close> on a channel that is no longer open delivers nothing.

  The registry \<open>connections\<close> is a JavaScript \<open>Map\<close>: its entries in the order of
  insertion (\<open>entries\<close>, which the heartbeat sweep iterates), read by key
  (\<open>connections s rid\<close> is \<open>connections.get(rid)\<close>). \<open>Map.set\<close> replaces the value of a
  key in place or appends a new entry, \<open>Map.delete\<close> removes the entry of the key.
\<close>

datatype frame =
    ErrorFrame string
  | AuthSuccess string string
  | WebhookFrame string string body
  | Ping millis

record channel =
  is_open :: bool
  outbox :: "frame list"
  authenticated :: bool
  chan_relayId :: "string option"

record AgentConnection =
  relayId :: string
  socket :: nat
  sessionId :: string
  connectedAt :: millis
  lastPing :: millis

record server =
  entries :: "(string \<times> AgentConnection) list"
  store :: redis
  channels :: "nat \<Rightarrow> channel"

definition connections :: "server \<Rightarrow> string \<rightharpoonup> AgentConnection" where
  "connections s = map_of (entries s)"

definition socket_send :: "server \<Rightarrow> nat \<Rightarrow> frame \<Rightarrow> server" where
  "socket_send s c f =
     (if is_open (channels s c)
      then s\<lparr>channels := (channels s)(c := (channels s c)\<lparr>outbox := outbox (channels s c) @ [f]\<rparr>)\<rparr>
      else s)"

datatype status = Delivered | Queued

definition sendWebhook :: "server \<Rightarrow> millis \<Rightarrow> string \<Rightarrow> event \<Rightarrow> (error + status) \<times> server" where
  "sendWebhook s now rid ev =
     (case connections s rid of
        None \<Rightarrow>
          (case redis_lpush (store s) now (''queue:pending:'' @ rid) ev of
             (Inl err, r1) \<Rightarrow> (Inl err, s\<lparr>store := r1\<rparr>)
           | (Inr u, r1) \<Rightarrow> (Inr Queued, s\<lparr>store := r1\<rparr>))
      | Some connection \<Rightarrow>
          (let s1 = socket_send s (socket connection)
                      (WebhookFrame (ev_id ev) (ev_signature ev) (ev_payload ev));
               r1 = redis_setex (store s1) now (''ack:pending:'' @ ev_id ev) 30 (PendingAck rid now)
           in (Inr Delivered, s1\<lparr>store := r1\<rparr>)))"

definition handleAck :: "server \<Rightarrow> string \<Rightarrow> string \<Rightarrow> server" where
  "handleAck s rid eventId = s\<lparr>store := redis_del (store s) (''ack:pending:'' @ eventId)\<rparr>"

section \<open>The ingestion route (routes/webhook.ts)\<close>

record request =
  relay_id :: string
  signature :: "string option"
  timestamp :: "string option"
  req_body :: body

datatype response =
    Unauthorized
  | DuplicateEvent
  | RateLimitExceeded int
  | InternalError
  | RespDelivered
  | RespQueued

definition http_code :: "response \<Rightarrow> nat" where
  "http_code resp =
     (case resp of
        Unauthorized \<Rightarrow> 401
      | DuplicateEvent \<Rightarrow> 409
      | RateLimitExceeded t \<Rightarrow> 429
      | InternalError \<Rightarrow> 500
      | RespDelivered \<Rightarrow> 200
      | RespQueued \<Rightarrow> 202)"

definition MAX_AGE :: int where
  "MAX_AGE = 5 * 60 * 1000"

text \<open>
  The comparison \<open>Math.abs(now - eventTime) > MAX_AGE\<close>; with \<open>eventTime = NaN\<close> the
  difference is \<open>NaN\<close> and every comparison with \<open>NaN\<close> is false.
\<close>

definition timestamp_rejected :: "millis \<Rightarrow> string \<Rightarrow> bool" where
  "timestamp_rejected now ts =
     (case parseInt ts of
        None \<Rightarrow> False
      | Some eventTime \<Rightarrow> \<bar>now - eventTime\<bar> > MAX_AGE)"

text \<open>The \<open>catch\<close> block of the route: the error's name selects the response.\<close>

definition error_response :: "error \<Rightarrow> response" where
  "error_response err =
     (case err of
        RateLimitError t \<Rightarrow> RateLimitExceeded t
      | ReplayError \<Rightarrow> DuplicateEvent
      | _ \<Rightarrow> InternalError)"

text \<open>
  The handler of \<open>POST /webhook/:relay_id\<close>. \<open>now\<close> is the clock, \<open>uuid\<close> the value
  that \<open>crypto.randomUUID()\<close> returns when it is called. A body that is \<open>null\<close> makes
  the read of \<open>event.event_id\<close> throw a \<open>TypeError\<close>. The reply is its status and error
  code; the \<open>X-RateLimit\<close> headers are left out.
\<close>

definition webhook_route :: "env \<Rightarrow> millis \<Rightarrow> string \<Rightarrow> server \<Rightarrow> request \<Rightarrow> response \<times> server" where
  "webhook_route e now uuid s req =
     (if \<not> truthy (signature req) \<or> \<not> truthy (timestamp req) then (Unauthorized, s)
      else if \<not> verifySignature e (req_body req) (the (timestamp req)) (the (signature req))
                  (webhook_secret e)
      then (Unauthorized, s)
      else if timestamp_rejected now (the (timestamp req)) then (Unauthorized, s)
      else
        (case req_body req of
           NullBody \<Rightarrow> (error_response TypeError, s)
         | ObjBody event_id rest \<Rightarrow>
             (let eventId = (if truthy event_id then the event_id else uuid) in
              case preventReplay (store s) now eventId of
                (Inl err, r1) \<Rightarrow> (error_response err, s\<lparr>store := r1\<rparr>)
              | (Inr u, r1) \<Rightarrow>
                  (case checkRateLimit r1 now (relay_id req) of
                     (Inl err, r2) \<Rightarrow> (error_response err, s\<lparr>store := r2\<rparr>)
                   | (Inr rateLimitInfo, r2) \<Rightarrow>
                       (case sendWebhook (s\<lparr>store := r2\<rparr>) now (relay_id req)
                               (Event eventId (the (signature req)) (req_body req)) of
                          (Inl err, s3) \<Rightarrow> (error_response err, s3)
                        | (Inr Delivered, s3) \<Rightarrow> (RespDelivered, s3)
                        | (Inr Queued, s3) \<Rightarrow> (RespQueued, s3))))))"

section \<open>The message and close handlers of a channel (websocket/manager.ts)\<close>

text \<open>
  An inbound frame after \<open>JSON.parse\<close>: \<open>Malformed\<close> is a frame that does not parse (the
  handler's \<open>catch\<close> answers \<open>internal_error\<close>), \<open>Other t\<close> any other message type.
\<close>

datatype message = Auth string string | Pong | Ack string | Other string | Malformed

definition sendError :: "server \<Rightarrow> nat \<Rightarrow> string \<Rightarrow> server" where
  "sendError s c err = socket_send s c (ErrorFrame err)"

definition handlePong :: "server \<Rightarrow> millis \<Rightarrow> string \<Rightarrow> server" where
  "handlePong s now rid =
     (case connections s rid of
        None \<Rightarrow> s
      | Some conn \<Rightarrow> s\<lparr>entries := AList.update rid (conn\<lparr>lastPing := now\<rparr>) (entries s)\<rparr>)"

text \<open>
  The \<open>message\<close> listener of channel \<open>c\<close>; \<open>uuid\<close> is the session id that
  \<open>crypto.randomUUID()\<close> returns.
\<close>

definition on_message :: "env \<Rightarrow> millis \<Rightarrow> string \<Rightarrow> server \<Rightarrow> nat \<Rightarrow> message \<Rightarrow> server" where
  "on_message e now uuid s c m =
     (if m = Malformed then sendError s c ''internal_error''
      else if \<not> authenticated (channels s c) then
        (case m of
           Auth rid api_key \<Rightarrow>
             (case agents e rid of
                None \<Rightarrow> sendError s c ''invalid_credentials''
              | Some api_key_hash \<Rightarrow>
                  if \<not> verifyApiKey e api_key api_key_hash
                  then sendError s c ''invalid_credentials''
                  else
                    (let s1 = s\<lparr>channels := (channels s)
                                 (c := (channels s c)\<lparr>authenticated := True,
                                                         chan_relayId := Some rid\<rparr>)\<rparr>;
                         s2 = (if rid \<noteq> []
                               then s1\<lparr>entries := AList.update rid
                                        \<lparr>relayId = rid, socket = c, sessionId = uuid,
                                         connectedAt = now, lastPing = now\<rparr> (entries s1)\<rparr>
                               else s1);
                         s3 = s2\<lparr>store := redis_setex (store s2) now (''session:'' @ rid) 86400
                                              (Session uuid now)\<rparr>
                     in socket_send s3 c (AuthSuccess rid uuid)))
         | _ \<Rightarrow> sendError s c ''authentication_required'')
      else
        (case m of
           Pong \<Rightarrow> handlePong s now (the (chan_relayId (channels s c)))
         | Ack eventId \<Rightarrow> handleAck s (the (chan_relayId (channels s c))) eventId
         | _ \<Rightarrow> sendError s c ''invalid_message''))"

text \<open>The \<open>close\<close> listener of channel \<open>c\<close>, run when the channel has closed.\<close>

definition on_close :: "server \<Rightarrow> nat \<Rightarrow> server" where
  "on_close s c =
     (let s1 = s\<lparr>channels := (channels s)(c := (channels s c)\<lparr>is_open := False\<rparr>)\<rparr> in
      if truthy (chan_relayId (channels s c))
      then s1\<lparr>entries := AList.delete (the (chan_relayId (channels s c))) (entries s1),
              store := redis_del (store s1) (''session:'' @ the (chan_relayId (channels s c)))\<rparr>
      else s1)"





section \<open>The server as a whole\<close>




text \<open>The deliveries a channel has received: the \<open>webhook\<close> frames sent on it.\<close>

definition is_delivery :: "frame \<Rightarrow> bool" where
  "is_delivery f = (case f of WebhookFrame i sg p \<Rightarrow> True | _ \<Rightarrow> False)"

definition deliveries :: "server \<Rightarrow> nat \<Rightarrow> frame list" where
  "deliveries s c = filter is_delivery (outbox (channels s c))"


definition not_registered :: "nat \<Rightarrow> server \<Rightarrow> bool" where
  "not_registered c s = list_all (\<lambda>entry. socket (snd entry) \<noteq> c) (entries s)"


section \<open>The replay guard under interleaving\<close>

text \<open>
  \<open>preventReplay\<close> is an \<open>async\<close> function with two \<open>await\<close>s: the task is suspended
  at \<open>redis.exists\<close> and again at \<open>redis.setex\<close>, and the handlers of other requests run
  in between. Each Redis command is atomic. A task is therefore at one of four points,
  and \<open>replay_step\<close> runs it up to its next suspension.
\<close>

datatype replay_pc = AtExists | AtSetex | Passed | Thrown

definition replay_step :: "redis \<Rightarrow> millis \<Rightarrow> string \<Rightarrow> replay_pc \<Rightarrow> replay_pc \<times> redis" where
  "replay_step r now eventId pc =
     (let key = ''event:processed:'' @ eventId in
      case pc of
        AtExists \<Rightarrow> if redis_exists r now key then (Thrown, r) else (AtSetex, r)
      | AtSetex \<Rightarrow> (Passed, redis_setex r now key DEDUP_TTL Marker)
      | Passed \<Rightarrow> (Passed, r)
      | Thrown \<Rightarrow> (Thrown, r))"

text \<open>
  Two ingestion tasks \<open>A\<close> and \<open>B\<close> in their replay guards, and a schedule that says
  which of them runs next (\<open>True\<close> for \<open>A\<close>).
\<close>

fun interleave ::
  "millis \<Rightarrow> string \<Rightarrow> string \<Rightarrow> bool list \<Rightarrow> replay_pc \<times> replay_pc \<times> redis \<Rightarrow>
   replay_pc \<times> replay_pc \<times> redis" where
  "interleave now idA idB [] st = st"
| "interleave now idA idB (True # sched) (pcA, pcB, r) =
     (case replay_step r now idA pcA of
        (pcA', r') \<Rightarrow> interleave now idA idB sched (pcA', pcB, r'))"
| "interleave now idA idB (False # sched) (pcA, pcB, r) =
     (case replay_step r now idB pcB of
        (pcB', r') \<Rightarrow> interleave now idA idB sched (pcA, pcB', r'))"

section \<open>Reconnect delay (node-sdk utils/retry.ts)\<close>

text \<open>
  \<open>Math.pow(2, k)\<close> for an integer \<open>k\<close>, and \<open>exponentialBackoff\<close> with the value
  \<open>rnd\<close> of \<open>Math.random()\<close> as an argument. The arithmetic is that of the real numbers;
  the rounding of IEEE doubles is not modelled.
\<close>

definition pow2 :: "int \<Rightarrow> real" where
  "pow2 k = (if 0 \<le> k then 2 ^ nat k else 1 / 2 ^ nat (- k))"

definition exponentialBackoff :: "int \<Rightarrow> real \<Rightarrow> real \<Rightarrow> int" where
  "exponentialBackoff attempt baseDelay rnd =
     (let maxDelay = 30000;
          delay = min (baseDelay * pow2 (attempt - 1)) maxDelay;
          jitter = delay * 0.2 * (rnd - 0.5)
      in \<lfloor>delay + jitter\<rfloor>)"

section \<open>The client (node-sdk WebhookRelay)\<close>

text \<open>
  The fields of \<open>WebhookRelay\<close> that the connection life cycle reads and writes.
  \<open>maxReconnectAttempts = None\<close> stands for the default \<open>Infinity\<close>; \<open>heartbeatTimer\<close>
  and \<open>ws\<close> record whether the timer and the socket object are set.
\<close>

record client =
  autoReconnect :: bool
  reconnectDelay :: real
  maxReconnectAttempts :: "nat option"
  connected :: bool
  reconnectAttempt :: nat
  heartbeatTimer :: bool
  ws :: bool
  shouldReconnect :: bool

text \<open>
  What a handler does to the outside: the events it emits to the caller's listeners, the
  settling of the promise that \<open>connect()\<close> returned, and the new connection that
  \<open>reconnect\<close> opens after its delay.
\<close>

datatype action =
    EmitError string
  | EmitConnected
  | EmitDisconnected
  | EmitReconnecting nat int
  | ResolveConnect
  | RejectConnect string
  | ConnectAfter int
  | ScheduleReconnect int
  | CloseSocket

definition handleAuthSuccess :: "client \<Rightarrow> client \<times> action list" where
  "handleAuthSuccess c =
     (c\<lparr>connected := True, reconnectAttempt := 0, heartbeatTimer := True\<rparr>,
      [EmitConnected, ResolveConnect])"

definition handleAuthError :: "client \<Rightarrow> string option \<Rightarrow> client \<times> action list" where
  "handleAuthError c msg =
     (let error = (if truthy msg then the msg else ''Authentication failed'')
      in (c, [EmitError error, RejectConnect error]))"

definition attempts_exhausted :: "client \<Rightarrow> bool" where
  "attempts_exhausted c =
     (case maxReconnectAttempts c of
        None \<Rightarrow> False
      | Some m \<Rightarrow> reconnectAttempt c \<ge> m)"

definition reconnect :: "real \<Rightarrow> client \<Rightarrow> client \<times> action list" where
  "reconnect rnd c =
     (if attempts_exhausted c then (c, [EmitError ''Max reconnect attempts reached''])
      else
        (let c1 = c\<lparr>reconnectAttempt := reconnectAttempt c + 1\<rparr>;
             delay = exponentialBackoff (int (reconnectAttempt c1)) (reconnectDelay c1) rnd
         in (c1, [EmitReconnecting (reconnectAttempt c1) delay, ConnectAfter delay])))"

definition handleClose :: "real \<Rightarrow> client \<Rightarrow> client \<times> action list" where
  "handleClose rnd c =
     (let c1 = c\<lparr>connected := False, heartbeatTimer := False\<rparr> in
      if shouldReconnect c1 \<and> autoReconnect c1
      then (case reconnect rnd c1 of (c2, acts) \<Rightarrow> (c2, EmitDisconnected # acts))
      else (c1, [EmitDisconnected]))"

definition disconnect :: "client \<Rightarrow> client \<times> action list" where
  "disconnect c =
     (c\<lparr>shouldReconnect := False, heartbeatTimer := False, ws := False, connected := False\<rparr>,
      if ws c then [CloseSocket] else [])"

text \<open>
  A \<open>disconnect\<close> frame of the server: \<open>reconnectAfterMs\<close> is optional, and \<open>0\<close> is
  falsy. The call of \<open>reconnect\<close> is left to a timer.
\<close>

definition handleDisconnect :: "client \<Rightarrow> int option \<Rightarrow> client \<times> action list" where
  "handleDisconnect c reconnectAfterMs =
     (c, EmitDisconnected #
         (if reconnectAfterMs \<noteq> None \<and> reconnectAfterMs \<noteq> Some 0 \<and> autoReconnect c
          then [ScheduleReconnect (the reconnectAfterMs)] else []))"

text \<open>
  What happens to a client: a frame arrives, the channel closes, the timer set by
  \<open>handleDisconnect\<close> fires, or the caller calls \<open>disconnect()\<close>. The events that may
  run \<open>reconnect\<close> carry the value that \<open>Math.random()\<close> returns in it. The handlers
  of \<open>webhook\<close>, \<open>ping\<close> and \<open>error\<close> frames touch none of the fields above, and the
  heartbeat monitor only closes the socket, which arrives here as \<open>ChannelClosed\<close>. The
  caller is taken to listen to \<open>error\<close> events.
\<close>

datatype client_event =
    RecvAuthSuccess
  | RecvAuthError "string option"
  | RecvDisconnect "int option"
  | ReconnectTimer real
  | ChannelClosed real
  | CallDisconnect

definition client_step :: "client \<Rightarrow> client_event \<Rightarrow> client \<times> action list" where
  "client_step c ev =
     (case ev of
        RecvAuthSuccess \<Rightarrow> handleAuthSuccess c
      | RecvAuthError msg \<Rightarrow> handleAuthError c msg
      | RecvDisconnect ms \<Rightarrow> handleDisconnect c ms
      | ReconnectTimer rnd \<Rightarrow> reconnect rnd c
      | ChannelClosed rnd \<Rightarrow> handleClose rnd c
      | CallDisconnect \<Rightarrow> disconnect c)"

fun client_run :: "client \<Rightarrow> client_event list \<Rightarrow> client \<times> action list" where
  "client_run c [] = (c, [])"
| "client_run c (ev # evs) =
     (case client_step c ev of
        (c1, acts) \<Rightarrow> (case client_run c1 evs of (c2, acts') \<Rightarrow> (c2, acts @ acts')))"

text \<open>
  An action that starts a reconnect attempt, and the events that come from the channel
  itself (its frames of authentication and its close) or from the caller.
\<close>

definition channel_event :: "client_event \<Rightarrow> bool" where
  "channel_event ev =
     (case ev of
        RecvDisconnect ms \<Rightarrow> False
      | ReconnectTimer rnd \<Rightarrow> False
      | _ \<Rightarrow> True)"

definition is_reconnect :: "action \<Rightarrow> bool" where
  "is_reconnect a =
     (case a of ConnectAfter d \<Rightarrow> True | ScheduleReconnect d \<Rightarrow> True | _ \<Rightarrow> False)"

text \<open>
  The client with the default options (auto-reconnect on, no limit of attempts, a base
  delay of 5000 ms) after \<open>connect()\<close> has opened its socket.
\<close>

definition default_client :: client where
  "default_client =
     \<lparr>autoReconnect = True, reconnectDelay = 5000, maxReconnectAttempts = None,
      connected = False, reconnectAttempt = 0, heartbeatTimer = False, ws = True,
      shouldReconnect = True\<rparr>"

section \<open>Strings as UTF-16 and their UTF-8 encoding\<close>

text \<open>
  The endpoint is a JavaScript string: a sequence of 16-bit code units. Writing it as
  \<open>utf8\<close> reads it as code points (a high surrogate followed by a low one is one code
  point; a surrogate on its own is written as U+FFFD) and encodes each in one to four
  bytes. The arithmetic is done on natural numbers.
\<close>

type_synonym jsstring = "16 word list"

definition is_high :: "nat \<Rightarrow> bool" where
  "is_high u = (0xD800 \<le> u \<and> u < 0xDC00)"

definition is_low :: "nat \<Rightarrow> bool" where
  "is_low u = (0xDC00 \<le> u \<and> u < 0xE000)"

definition scalar_of :: "nat \<Rightarrow> nat" where
  "scalar_of u = (if is_high u \<or> is_low u then 0xFFFD else u)"

fun code_points :: "nat list \<Rightarrow> nat list" where
  "code_points [] = []"
| "code_points [u] = [scalar_of u]"
| "code_points (u # l # us) =
     (if is_high u \<and> is_low l
      then (0x10000 + (u - 0xD800) * 0x400 + (l - 0xDC00)) # code_points us
      else scalar_of u # code_points (l # us))"

definition encode_cp :: "nat \<Rightarrow> nat list" where
  "encode_cp cp =
     (if cp < 0x80 then [cp]
      else if cp < 0x800 then [0xC0 + cp div 0x40, 0x80 + cp mod 0x40]
      else if cp < 0x10000
      then [0xE0 + cp div 0x1000, 0x80 + cp div 0x40 mod 0x40, 0x80 + cp mod 0x40]
      else [0xF0 + cp div 0x40000, 0x80 + cp div 0x1000 mod 0x40,
            0x80 + cp div 0x40 mod 0x40, 0x80 + cp mod 0x40])"

definition utf8_encode :: "jsstring \<Rightarrow> byte list" where
  "utf8_encode s = map of_nat (concat (map encode_cp (code_points (map unat s))))"

text \<open>
  Reading bytes as \<open>utf8\<close>, as the WHATWG decoder does: \<open>need\<close> continuation bytes
  are still expected, the next of them between \<open>lo\<close> and \<open>hi\<close>; a byte that cannot
  start or continue a sequence gives U+FFFD, and so does an unfinished sequence at the
  end. A code point beyond the basic plane becomes a surrogate pair.
\<close>

function utf8_dec :: "nat \<Rightarrow> nat \<Rightarrow> nat \<Rightarrow> nat \<Rightarrow> nat list \<Rightarrow> nat list" where
  "utf8_dec cp need lo hi [] = (if need = 0 then [] else [0xFFFD])"
| "utf8_dec cp need lo hi (b # bs) =
     (if need = 0 then
        (if b < 0x80 then b # utf8_dec 0 0 0x80 0xBF bs
         else if 0xC2 \<le> b \<and> b \<le> 0xDF then utf8_dec (b - 0xC0) 1 0x80 0xBF bs
         else if 0xE0 \<le> b \<and> b \<le> 0xEF
         then utf8_dec (b - 0xE0) 2 (if b = 0xE0 then 0xA0 else 0x80)
                (if b = 0xED then 0x9F else 0xBF) bs
         else if 0xF0 \<le> b \<and> b \<le> 0xF4
         then utf8_dec (b - 0xF0) 3 (if b = 0xF0 then 0x90 else 0x80)
                (if b = 0xF4 then 0x8F else 0xBF) bs
         else 0xFFFD # utf8_dec 0 0 0x80 0xBF bs)
      else if b < lo \<or> hi < b then 0xFFFD # utf8_dec 0 0 0x80 0xBF (b # bs)
      else if need = 1 then (cp * 0x40 + (b - 0x80)) # utf8_dec 0 0 0x80 0xBF bs
      else utf8_dec (cp * 0x40 + (b - 0x80)) (need - 1) 0x80 0xBF bs)"
  by pat_completeness auto
termination
  by (relation "measure (\<lambda>(cp, need, lo, hi, bs). 2 * length bs + (if need = 0 then 0 else 1))") auto

definition code_units :: "nat \<Rightarrow> nat list" where
  "code_units cp =
     (if cp < 0x10000 then [cp]
      else [0xD800 + (cp - 0x10000) div 0x400, 0xDC00 + (cp - 0x10000) mod 0x400])"

definition utf8_decode :: "byte list \<Rightarrow> jsstring" where
  "utf8_decode bs = map of_nat (concat (map code_units (utf8_dec 0 0 0x80 0xBF (map unat bs))))"

text \<open>
  A code point that UTF-8 can carry, and a string without unpaired surrogates.
\<close>

definition scalar :: "nat \<Rightarrow> bool" where
  "scalar cp = (cp < 0x110000 \<and> \<not> is_high cp \<and> \<not> is_low cp)"

fun well_formed :: "nat list \<Rightarrow> bool" where
  "well_formed [] = True"
| "well_formed [u] = (u < 0x10000 \<and> \<not> is_high u \<and> \<not> is_low u)"
| "well_formed (u # l # us) =
     (u < 0x10000 \<and>
      (if is_high u then is_low l \<and> well_formed us
       else \<not> is_low u \<and> well_formed (l # us)))"

section \<open>Endpoint encryption (encryptEndpoint, decryptEndpoint)\<close>

text \<open>
  \<open>s.split(':')\<close>: the pieces between the colons, at least one.
\<close>

fun split_on :: "char \<Rightarrow> string \<Rightarrow> string list" where
  "split_on c [] = [[]]"
| "split_on c (x # xs) =
     (if x = c then [] # split_on c xs
      else (case split_on c xs of
              [] \<Rightarrow> [[x]]
            | p # ps \<Rightarrow> (x # p) # ps))"

text \<open>
  AES-256-GCM of Node's \<open>crypto\<close> module is a parameter: \<open>gcm_encrypt key iv plain\<close>
  gives the ciphertext and the authentication tag, \<open>gcm_decrypt key iv cipher tag\<close> the
  plaintext, or \<open>None\<close> when \<open>final()\<close> throws because the tag does not match.
  \<open>createCipheriv\<close> and \<open>createDecipheriv\<close> throw on a key that is not 32 bytes long and
  on an empty nonce, \<open>setAuthTag\<close> on a tag length that GCM does not have; a field that
  \<open>split\<close> does not yield is \<open>undefined\<close>, which \<open>Buffer.from\<close> and \<open>update\<close> reject.
\<close>

record cipher_lib =
  gcm_encrypt :: "byte list \<Rightarrow> byte list \<Rightarrow> byte list \<Rightarrow> byte list \<times> byte list"
  gcm_decrypt :: "byte list \<Rightarrow> byte list \<Rightarrow> byte list \<Rightarrow> byte list \<Rightarrow> byte list option"

datatype crypto_error =
    InvalidKeyLength
  | InvalidIV
  | InvalidAuthTagLength
  | AuthenticationFailed
  | MissingField

text \<open>
  \<open>encryptEndpoint\<close>, with the nonce that \<open>crypto.randomBytes(12)\<close> returns as an
  argument, and \<open>decryptEndpoint\<close>.
\<close>

definition encryptEndpoint ::
  "cipher_lib \<Rightarrow> byte list \<Rightarrow> jsstring \<Rightarrow> string \<Rightarrow> crypto_error + string" where
  "encryptEndpoint lib iv endpoint key =
     (let keyBuffer = hex_decode key in
      if length keyBuffer \<noteq> 32 then Inl InvalidKeyLength
      else
        (case gcm_encrypt lib keyBuffer iv (utf8_encode endpoint) of
           (encrypted, authTag) \<Rightarrow>
             Inr (hex_encode iv @ '':'' @ hex_encode authTag @ '':'' @ hex_encode encrypted)))"

definition valid_tag_length :: "nat \<Rightarrow> bool" where
  "valid_tag_length n = (n \<in> set [4, 8, 12, 13, 14, 15, 16])"

definition decryptEndpoint :: "cipher_lib \<Rightarrow> string \<Rightarrow> string \<Rightarrow> crypto_error + jsstring" where
  "decryptEndpoint lib encryptedData key =
     (let keyBuffer = hex_decode key in
      case split_on CHR '':'' encryptedData of
        ivHex # authTagHex # rest \<Rightarrow>
          (let iv = hex_decode ivHex; authTag = hex_decode authTagHex in
           if length keyBuffer \<noteq> 32 then Inl InvalidKeyLength
           else if iv = [] then Inl InvalidIV
           else if \<not> valid_tag_length (length authTag) then Inl InvalidAuthTagLength
           else
             (case rest of
                [] \<Rightarrow> Inl MissingField
              | encrypted # others \<Rightarrow>
                  (case gcm_decrypt lib keyBuffer iv (hex_decode encrypted) authTag of
                     None \<Rightarrow> Inl AuthenticationFailed
                   | Some decrypted \<Rightarrow> Inr (utf8_decode decrypted))))
      | _ \<Rightarrow> Inl MissingField)"

section \<open>Predicates and sample inputs of the statements\<close>

text \<open>A request passes the header, signature and freshness gates of the route.\<close>

definition passes_gates :: "env \<Rightarrow> millis \<Rightarrow> request \<Rightarrow> bool" where
  "passes_gates e now req =
     (truthy (signature req) \<and> truthy (timestamp req) \<and>
      verifySignature e (req_body req) (the (timestamp req)) (the (signature req))
        (webhook_secret e) \<and>
      \<not> timestamp_rejected now (the (timestamp req)))"

definition marker_key :: "string \<Rightarrow> string" where
  "marker_key eventId = ''event:processed:'' @ eventId"

definition ack_key :: "string \<Rightarrow> string" where
  "ack_key eventId = ''ack:pending:'' @ eventId"

text \<open>
  The rate limiter admits one more request of \<open>rid\<close>: the window's counter is absent
  (or expired), or below the cap.
\<close>

definition rate_admits :: "redis \<Rightarrow> millis \<Rightarrow> string \<Rightarrow> bool" where
  "rate_admits r now rid =
     (case live r now (''ratelimit:'' @ rid) of
        None \<Rightarrow> True
      | Some (Counter n, e) \<Rightarrow> n < RATE_LIMIT_MAX
      | Some (_, e) \<Rightarrow> False)"

definition rate_exhausted :: "redis \<Rightarrow> millis \<Rightarrow> string \<Rightarrow> bool" where
  "rate_exhausted r now rid =
     (case live r now (''ratelimit:'' @ rid) of
        Some (Counter n, e) \<Rightarrow> n \<ge> RATE_LIMIT_MAX
      | _ \<Rightarrow> False)"

text \<open>The offline queue of \<open>rid\<close> is absent or a list, so that \<open>LPUSH\<close> succeeds.\<close>

definition queue_ok :: "redis \<Rightarrow> millis \<Rightarrow> string \<Rightarrow> bool" where
  "queue_ok r now rid =
     (case live r now (''queue:pending:'' @ rid) of
        None \<Rightarrow> True
      | Some (Queue xs, e) \<Rightarrow> True
      | Some (_, e) \<Rightarrow> False)"

text \<open>
  A sample environment. The keyed checksum \<open>sample_hmac\<close> stands in for HMAC-SHA256 and
  \<open>sample_verify\<close> for bcrypt; the statements below that hold for every environment
  are instantiated with it.
\<close>

definition sample_hmac :: "string \<Rightarrow> string \<Rightarrow> string" where
  "sample_hmac key msg = hex_encode [of_nat (sum_list (map of_char (key @ msg)))]"

definition sample_verify :: "string \<Rightarrow> string \<Rightarrow> bool" where
  "sample_verify api_key h = (h = ''hash:'' @ api_key)"

definition sample_env :: env where
  "sample_env =
     \<lparr>hmac = sample_hmac,
      stringify = (\<lambda>b. case b of NullBody \<Rightarrow> ''null'' | ObjBody i rest \<Rightarrow> rest),
      webhook_secret = ''s3'',
      agents = [''agt_1'' \<mapsto> ''hash:sk_1'', ''agt_2'' \<mapsto> ''hash:sk_2''],
      verifyApiKey = sample_verify\<rparr>"

definition server0 :: server where
  "server0 =
     \<lparr>entries = [], store = Map.empty,
      channels = (\<lambda>c. \<lparr>is_open = True, outbox = [], authenticated = False,
                        chan_relayId = None\<rparr>)\<rparr>"

text \<open>
  Sample requests for \<open>sample_env\<close>: correctly signed with event id \<open>evt_1\<close>; the
  same without a signature header; the same without an \<open>event_id\<close> field; and one whose
  timestamp header is \<open>abc\<close>, signed as such. \<open>busy_server\<close> has used up the rate-limit
  window of \<open>agt_1\<close>.
\<close>

definition sample_request :: request where
  "sample_request =
     \<lparr>relay_id = ''agt_1'', signature = Some ''sha256=1d'', timestamp = Some ''1000000'',
      req_body = ObjBody (Some ''evt_1'') ''{}''\<rparr>"

definition busy_server :: server where
  "busy_server = server0\<lparr>store := [''ratelimit:agt_1'' \<mapsto> (Counter 100, Some 1030000)]\<rparr>"

definition unsigned_request :: request where
  "unsigned_request = sample_request\<lparr>signature := None\<rparr>"

definition anonymous_request :: request where
  "anonymous_request = sample_request\<lparr>req_body := ObjBody None ''{}''\<rparr>"

definition garbled_request :: request where
  "garbled_request = sample_request\<lparr>signature := Some ''sha256=f2'', timestamp := Some ''abc''\<rparr>"

text \<open>
  Sample server states: \<open>agt_1\<close> authenticated on channel 1; then an event delivered to
  it; and \<open>agt_1\<close> authenticated a second time, on channel 2.
\<close>

definition online_server :: server where
  "online_server = on_message sample_env 900000 ''sess-1'' server0 1 (Auth ''agt_1'' ''sk_1'')"

definition sample_event :: event where
  "sample_event = Event ''evt_1'' ''sha256=1d'' (ObjBody (Some ''evt_1'') ''{}'')"

definition delivered_server :: server where
  "delivered_server = snd (sendWebhook online_server 1000000 ''agt_1'' sample_event)"

definition twice_authenticated :: server where
  "twice_authenticated =
     on_message sample_env 950000 ''sess-2'' online_server 2 (Auth ''agt_1'' ''sk_1'')"

text \<open>
  A sample cipher that stands in for AES-256-GCM (a shift by the sum of key and nonce,
  with a checksum as tag), a 256-bit key in hex, a nonce, and an endpoint string with a
  character of each encoded length.
\<close>

definition sample_gcm_encrypt :: "byte list \<Rightarrow> byte list \<Rightarrow> byte list \<Rightarrow> byte list \<times> byte list" where
  "sample_gcm_encrypt key iv plain =
     (map (\<lambda>b. b + sum_list (key @ iv)) plain,
      replicate 15 0 @ [sum_list plain + sum_list key])"

definition sample_gcm_decrypt ::
  "byte list \<Rightarrow> byte list \<Rightarrow> byte list \<Rightarrow> byte list \<Rightarrow> byte list option" where
  "sample_gcm_decrypt key iv ct tag =
     (let plain = map (\<lambda>b. b - sum_list (key @ iv)) ct in
      if tag = replicate 15 0 @ [sum_list plain + sum_list key] then Some plain else None)"

definition sample_lib :: cipher_lib where
  "sample_lib = \<lparr>gcm_encrypt = sample_gcm_encrypt, gcm_decrypt = sample_gcm_decrypt\<rparr>"

definition sample_key :: string where
  "sample_key = ''000102030405060708090a0b0c0d0e0f101112131415161718191a1b1c1d1e1f''"

definition sample_iv :: "byte list" where
  "sample_iv = [1, 2, 3, 4, 5, 6, 7, 8, 9, 10, 11, 12]"

definition sample_endpoint :: jsstring where
  "sample_endpoint = [0x68, 0xE9, 0x20AC, 0xD83D, 0xDE00]"


section \<open>Reading the registry\<close>

lemma connections_simps [simp]:
  "connections (s\<lparr>entries := es\<rparr>) = map_of es"
  "connections (s\<lparr>store := r\<rparr>) = connections s"
  "connections (s\<lparr>channels := ch\<rparr>) = connections s"
  "connections \<lparr>entries = es, store = r, channels = ch\<rparr> = map_of es"
  by (simp_all add: connections_def)

section \<open>The services of the ingestion route\<close>

text \<open>
  The rate limiter writes its own key only; \<open>sendWebhook\<close> writes the offline queue of
  the agent or the pending acknowledgment of the event.
\<close>

lemma checkRateLimit_frame:
  "k \<noteq> ''ratelimit:'' @ rid \<Longrightarrow> snd (checkRateLimit r now rid) k = r k"
  by (auto simp: checkRateLimit_def redis_incr_def redis_pexpire_def Let_def
           split: option.splits prod.splits rvalue.splits sum.splits)

lemma sendWebhook_frame:
  "k \<noteq> ''queue:pending:'' @ rid \<Longrightarrow> k \<noteq> ''ack:pending:'' @ ev_id ev \<Longrightarrow>
   store (snd (sendWebhook s now rid ev)) k = store s k"
  by (auto simp: sendWebhook_def redis_lpush_def redis_setex_def socket_send_def Let_def
           split: option.splits prod.splits rvalue.splits sum.splits)

lemma live_cong: "r k = r' k \<Longrightarrow> live r now k = live r' now k"
  by (simp add: live_def)

lemma checkRateLimit_admits:
  assumes "rate_admits r now rid"
  shows "\<exists>info. fst (checkRateLimit r now rid) = Inr info"
  using assms
  by (auto simp: checkRateLimit_def rate_admits_def redis_incr_def Let_def RATE_LIMIT_MAX_def
           split: option.splits prod.splits rvalue.splits)

lemma checkRateLimit_exhausted:
  assumes "rate_exhausted r now rid"
  shows "\<exists>t. fst (checkRateLimit r now rid) = Inl (RateLimitError t)"
  using assms
  by (auto simp: checkRateLimit_def rate_exhausted_def redis_incr_def Let_def RATE_LIMIT_MAX_def
           split: option.splits prod.splits rvalue.splits)

lemma checkRateLimit_no_replay:
  "fst (checkRateLimit r now rid) \<noteq> Inl ReplayError"
  by (auto simp: checkRateLimit_def redis_incr_def Let_def
           split: option.splits prod.splits rvalue.splits sum.splits if_splits)

lemma sendWebhook_online:
  "connections s rid \<noteq> None \<Longrightarrow> fst (sendWebhook s now rid ev) = Inr Delivered"
  by (auto simp: sendWebhook_def Let_def)

lemma sendWebhook_offline:
  "connections s rid = None \<Longrightarrow> queue_ok (store s) now rid \<Longrightarrow>
   fst (sendWebhook s now rid ev) = Inr Queued"
  by (auto simp: sendWebhook_def queue_ok_def redis_lpush_def
           split: option.splits prod.splits rvalue.splits)

lemma sendWebhook_no_replay:
  "fst (sendWebhook s now rid ev) \<noteq> Inl ReplayError"
  by (auto simp: sendWebhook_def redis_lpush_def Let_def
           split: option.splits prod.splits rvalue.splits sum.splits if_splits)

text \<open>The route after its three gates, in terms of the three services.\<close>

lemma route_after_gates:
  assumes "passes_gates e now req" "req_body req = ObjBody eido rest"
    "eventId = (if truthy eido then the eido else uuid)"
    "\<not> redis_exists (store s) now (marker_key eventId)"
  shows "webhook_route e now uuid s req =
     (case fst (checkRateLimit (redis_setex (store s) now (marker_key eventId) DEDUP_TTL Marker)
                  now (relay_id req)) of
        Inl err \<Rightarrow>
          (error_response err,
           s\<lparr>store := snd (checkRateLimit
                     (redis_setex (store s) now (marker_key eventId) DEDUP_TTL Marker)
                     now (relay_id req))\<rparr>)
      | Inr info \<Rightarrow>
          (case fst (sendWebhook
                  (s\<lparr>store := snd (checkRateLimit
                     (redis_setex (store s) now (marker_key eventId) DEDUP_TTL Marker)
                     now (relay_id req))\<rparr>)
                  now (relay_id req) (Event eventId (the (signature req)) (ObjBody eido rest))) of
             Inl err \<Rightarrow>
               (error_response err,
                snd (sendWebhook
                  (s\<lparr>store := snd (checkRateLimit
                     (redis_setex (store s) now (marker_key eventId) DEDUP_TTL Marker)
                     now (relay_id req))\<rparr>)
                  now (relay_id req) (Event eventId (the (signature req)) (ObjBody eido rest))))
           | Inr st \<Rightarrow>
               (case st of Delivered \<Rightarrow> RespDelivered | Queued \<Rightarrow> RespQueued,
                snd (sendWebhook
                  (s\<lparr>store := snd (checkRateLimit
                     (redis_setex (store s) now (marker_key eventId) DEDUP_TTL Marker)
                     now (relay_id req))\<rparr>)
                  now (relay_id req) (Event eventId (the (signature req)) (ObjBody eido rest))))))"
  using assms
  by (auto simp add: webhook_route_def passes_gates_def marker_key_def preventReplay_def Let_def
        split: sum.splits prod.splits status.splits)

lemma rate_admits_cong:
  "r (''ratelimit:'' @ rid) = r' (''ratelimit:'' @ rid) \<Longrightarrow> rate_admits r now rid = rate_admits r' now rid"
  by (simp add: rate_admits_def live_def)

lemma rate_exhausted_cong:
  "r (''ratelimit:'' @ rid) = r' (''ratelimit:'' @ rid) \<Longrightarrow>
   rate_exhausted r now rid = rate_exhausted r' now rid"
  by (simp add: rate_exhausted_def live_def)

lemma queue_ok_cong:
  "r (''queue:pending:'' @ rid) = r' (''queue:pending:'' @ rid) \<Longrightarrow>
   queue_ok r now rid = queue_ok r' now rid"
  by (simp add: queue_ok_def live_def)

lemma route_marks:
  assumes "passes_gates e now req" "req_body req = ObjBody eido rest"
    "eventId = (if truthy eido then the eido else uuid)"
    "\<not> redis_exists (store s) now (marker_key eventId)"
  shows "store (snd (webhook_route e now uuid s req)) (marker_key eventId)
           = Some (Marker, Some (now + 600000))"
    and "fst (webhook_route e now uuid s req) \<noteq> DuplicateEvent"
    and "fst (webhook_route e now uuid s req) \<noteq> Unauthorized"
proof -
  let ?r1 = "redis_setex (store s) now (marker_key eventId) DEDUP_TTL Marker"
  let ?c = "checkRateLimit ?r1 now (relay_id req)"
  let ?w = "sendWebhook (s\<lparr>store := snd ?c\<rparr>) now (relay_id req)
              (Event eventId (the (signature req)) (ObjBody eido rest))"
  have m1: "?r1 (marker_key eventId) = Some (Marker, Some (now + 600000))"
    by (simp add: redis_setex_def DEDUP_TTL_def)
  have m2: "snd ?c (marker_key eventId) = Some (Marker, Some (now + 600000))"
    using checkRateLimit_frame[of "marker_key eventId" "relay_id req" ?r1 now] m1
    by (simp add: marker_key_def)
  have m3: "store (snd ?w) (marker_key eventId) = Some (Marker, Some (now + 600000))"
    using sendWebhook_frame[of "marker_key eventId" "relay_id req" _ "s\<lparr>store := snd ?c\<rparr>" now] m2
    by (simp add: marker_key_def)
  have unf: "webhook_route e now uuid s req =
      (case fst ?c of
           Inl err \<Rightarrow> (error_response err, s\<lparr>store := snd ?c\<rparr>)
         | Inr info \<Rightarrow>
             (case fst ?w of
                Inl err \<Rightarrow> (error_response err, snd ?w)
              | Inr st \<Rightarrow>
                  (case st of Delivered \<Rightarrow> RespDelivered | Queued \<Rightarrow> RespQueued, snd ?w)))"
    by (rule route_after_gates[OF assms(1-4)])
  have nr1: "fst ?c \<noteq> Inl ReplayError" by (rule checkRateLimit_no_replay)
  have nr2: "fst ?w \<noteq> Inl ReplayError" by (rule sendWebhook_no_replay)
  have er: "\<And>err. err \<noteq> ReplayError \<Longrightarrow> error_response err \<noteq> DuplicateEvent \<and> error_response err \<noteq> Unauthorized"
    by (case_tac err) (simp_all add: error_response_def)
  have er2: "\<And>err. error_response err \<noteq> Unauthorized"
    by (case_tac err) (simp_all add: error_response_def)
  show "store (snd (webhook_route e now uuid s req)) (marker_key eventId)
           = Some (Marker, Some (now + 600000))"
    unfolding unf using m2 m3 by (auto split: sum.splits status.splits)
  show "fst (webhook_route e now uuid s req) \<noteq> DuplicateEvent"
    unfolding unf using nr1 nr2 er by (auto split: sum.splits status.splits)
  show "fst (webhook_route e now uuid s req) \<noteq> Unauthorized"
    unfolding unf using er2 by (auto split: sum.splits status.splits)
qed

lemma route_admitted:
  assumes "passes_gates e now req" "req_body req = ObjBody eido rest"
    "eventId = (if truthy eido then the eido else uuid)"
    "\<not> redis_exists (store s) now (marker_key eventId)"
    "rate_admits (store s) now (relay_id req)"
  shows "connections s (relay_id req) \<noteq> None \<Longrightarrow>
           fst (webhook_route e now uuid s req) = RespDelivered"
    and "connections s (relay_id req) = None \<Longrightarrow> queue_ok (store s) now (relay_id req) \<Longrightarrow>
           fst (webhook_route e now uuid s req) = RespQueued"
proof -
  let ?r1 = "redis_setex (store s) now (marker_key eventId) DEDUP_TTL Marker"
  let ?c = "checkRateLimit ?r1 now (relay_id req)"
  let ?s2 = "s\<lparr>store := snd ?c\<rparr>"
  let ?w = "sendWebhook ?s2 now (relay_id req)
              (Event eventId (the (signature req)) (ObjBody eido rest))"
  have unf: "webhook_route e now uuid s req =
      (case fst ?c of
           Inl err \<Rightarrow> (error_response err, s\<lparr>store := snd ?c\<rparr>)
         | Inr info \<Rightarrow>
             (case fst ?w of
                Inl err \<Rightarrow> (error_response err, snd ?w)
              | Inr st \<Rightarrow>
                  (case st of Delivered \<Rightarrow> RespDelivered | Queued \<Rightarrow> RespQueued, snd ?w)))"
    by (rule route_after_gates[OF assms(1-4)])
  have "rate_admits ?r1 now (relay_id req)"
    using assms(5) rate_admits_cong[of ?r1 "relay_id req" "store s" now]
    by (simp add: redis_setex_def marker_key_def)
  then obtain info where c: "fst ?c = Inr info"
    using checkRateLimit_admits by blast
  show "fst (webhook_route e now uuid s req) = RespDelivered"
    if "connections s (relay_id req) \<noteq> None"
  proof -
    have "fst ?w = Inr Delivered"
      using that by (intro sendWebhook_online) simp
    then show ?thesis unfolding unf using c by simp
  qed
  show "fst (webhook_route e now uuid s req) = RespQueued"
    if off: "connections s (relay_id req) = None" and q: "queue_ok (store s) now (relay_id req)"
  proof -
    have "snd ?c (''queue:pending:'' @ relay_id req) = ?r1 (''queue:pending:'' @ relay_id req)"
      by (rule checkRateLimit_frame) simp
    also have "\<dots> = store s (''queue:pending:'' @ relay_id req)"
      by (simp add: redis_setex_def marker_key_def)
    finally have "queue_ok (store ?s2) now (relay_id req)"
      using q queue_ok_cong[of "store ?s2" "relay_id req" "store s" now] by simp
    then have "fst ?w = Inr Queued"
      using off by (intro sendWebhook_offline) simp_all
    then show ?thesis unfolding unf using c by simp
  qed
qed

lemma route_exhausted:
  assumes "passes_gates e now req" "req_body req = ObjBody eido rest"
    "eventId = (if truthy eido then the eido else uuid)"
    "\<not> redis_exists (store s) now (marker_key eventId)"
    "rate_exhausted (store s) now (relay_id req)"
  shows "\<exists>t. fst (webhook_route e now uuid s req) = RateLimitExceeded t"
proof -
  let ?r1 = "redis_setex (store s) now (marker_key eventId) DEDUP_TTL Marker"
  let ?c = "checkRateLimit ?r1 now (relay_id req)"
  have "rate_exhausted ?r1 now (relay_id req)"
    using assms(5) rate_exhausted_cong[of ?r1 "relay_id req" "store s" now]
    by (simp add: redis_setex_def marker_key_def)
  then obtain t where c: "fst ?c = Inl (RateLimitError t)"
    using checkRateLimit_exhausted by blast
  show ?thesis
    using route_after_gates[OF assms(1-4)] c
    by (simp add: error_response_def)
qed

lemma route_duplicate:
  assumes "passes_gates e now req" "req_body req = ObjBody (Some eid) rest" "eid \<noteq> []"
    "redis_exists (store s) now (marker_key eid)"
  shows "webhook_route e now uuid s req = (DuplicateEvent, s)"
  using assms
  by (simp add: webhook_route_def passes_gates_def preventReplay_def truthy_def marker_key_def
        error_response_def)

section \<open>The sample requests\<close>

lemma sample_hmac_1: "sample_hmac ''s3'' ''1000000.{}'' = ''1d''"
  by (simp add: sample_hmac_def hex_char_def)

lemma sample_hmac_2: "sample_hmac ''s3'' ''abc.{}'' = ''f2''"
  by (simp add: sample_hmac_def hex_char_def)

lemma parseInt_sample: "parseInt ''1000000'' = Some 1000000"
  by (simp add: parseInt_def is_ws_def digit_val_def digits_value_def)

lemma sample_verifies:
  "verifySignature sample_env (ObjBody i ''{}'') ''1000000'' ''sha256=1d'' ''s3''"
  by (simp add: verifySignature_def sample_env_def sample_hmac_1 timingSafeEqual_def hex_val_def
        digit_val_def)

lemma sample_passes:
  "\<bar>now - 1000000\<bar> \<le> 300000 \<Longrightarrow> passes_gates sample_env now (sample_request\<lparr>req_body := ObjBody i ''{}''\<rparr>)"
  using sample_verifies[of i]
  by (simp add: passes_gates_def sample_request_def truthy_def
      timestamp_rejected_def parseInt_sample MAX_AGE_def) (simp add: sample_env_def)

lemma sample_passes': "\<bar>now - 1000000\<bar> \<le> 300000 \<Longrightarrow> passes_gates sample_env now sample_request"
  using sample_passes[where i = "Some ''evt_1''"] by (simp add: sample_request_def)

section \<open>Replay suppression\<close>

text \<open>
  C3 (as amended). Two requests carry the same non-empty event id, both pass the
  signature and freshness gates, the second arrives within the 10-minute replay TTL of the
  first, and the id is unmarked when the first arrives. Then the first passes the replay
  gate: it is answered \<open>delivered\<close> when the rate limiter admits it and the agent is
  registered, \<open>queued\<close> when the rate limiter admits it and the agent is offline, and
  \<open>rate_limit_exceeded\<close> when the agent's window is used up. In every case the second is
  answered \<open>duplicate_event\<close> (409) and leaves the whole server state as it was.
\<close>

theorem same_event_id_twice:
  assumes g1: "passes_gates e now1 req1" and g2: "passes_gates e now2 req2"
    and b1: "req_body req1 = ObjBody (Some eid) rest1"
    and b2: "req_body req2 = ObjBody (Some eid) rest2"
    and ne: "eid \<noteq> []"
    and fresh: "\<not> redis_exists (store s) now1 (marker_key eid)"
    and t1: "now1 \<le> now2" and t2: "now2 < now1 + 1000 * DEDUP_TTL"
  shows "(case webhook_route e now1 u1 s req1 of
            (resp1, s1) \<Rightarrow>
              resp1 \<noteq> DuplicateEvent \<and> resp1 \<noteq> Unauthorized \<and>
              (rate_admits (store s) now1 (relay_id req1) \<and> connections s (relay_id req1) \<noteq> None
                 \<longrightarrow> resp1 = RespDelivered) \<and>
              (rate_admits (store s) now1 (relay_id req1) \<and> connections s (relay_id req1) = None \<and>
               queue_ok (store s) now1 (relay_id req1) \<longrightarrow> resp1 = RespQueued) \<and>
              (rate_exhausted (store s) now1 (relay_id req1) \<longrightarrow> (\<exists>ms. resp1 = RateLimitExceeded ms)) \<and>
              webhook_route e now2 u2 s1 req2 = (DuplicateEvent, s1) \<and>
              http_code DuplicateEvent = 409)"
proof -
  obtain resp1 s1 where r: "webhook_route e now1 u1 s req1 = (resp1, s1)"
    by (cases "webhook_route e now1 u1 s req1")
  have eid: "eid = (if truthy (Some eid) then the (Some eid) else u1)"
    using ne by (simp add: truthy_def)
  note m = route_marks[OF g1 b1 eid fresh]
  note a = route_admitted[OF g1 b1 eid fresh]
  note x = route_exhausted[OF g1 b1 eid fresh]
  have "store s1 (marker_key eid) = Some (Marker, Some (now1 + 600000))"
    using m(1) r by simp
  then have "redis_exists (store s1) now2 (marker_key eid)"
    using t2 by (simp add: redis_exists_def live_def DEDUP_TTL_def)
  then have "webhook_route e now2 u2 s1 req2 = (DuplicateEvent, s1)"
    by (rule route_duplicate[OF g2 b2 ne])
  then show ?thesis
    using r m(2,3) a x by (auto simp: http_code_def)
qed

text \<open>The sample request sent twice, half a second apart, to a server without state.\<close>

theorem same_event_id_twice_witness:
  "passes_gates sample_env 1000000 sample_request \<and>
   passes_gates sample_env 1000500 sample_request \<and>
   \<not> redis_exists (store server0) 1000000 (marker_key ''evt_1'') \<and>
   rate_admits (store server0) 1000000 ''agt_1'' \<and>
   connections server0 ''agt_1'' = None \<and>
   queue_ok (store server0) 1000000 ''agt_1'' \<and>
   \<not> rate_exhausted (store server0) 1000000 ''agt_1'' \<and>
   fst (webhook_route sample_env 1000000 ''u1'' server0 sample_request) = RespQueued \<and>
   webhook_route sample_env 1000500 ''u2''
     (snd (webhook_route sample_env 1000000 ''u1'' server0 sample_request)) sample_request
   = (DuplicateEvent, snd (webhook_route sample_env 1000000 ''u1'' server0 sample_request))"
proof -
  have g1: "passes_gates sample_env 1000000 sample_request"
    and g2: "passes_gates sample_env 1000500 sample_request"
    by (rule sample_passes', simp)+
  have b: "req_body sample_request = ObjBody (Some ''evt_1'') ''{}''"
    by (simp add: sample_request_def)
  have f: "\<not> redis_exists (store server0) 1000000 (marker_key ''evt_1'')"
    by (simp add: server0_def redis_exists_def live_def)
  have s: "rate_admits (store server0) 1000000 ''agt_1''" "connections server0 ''agt_1'' = None"
    "queue_ok (store server0) 1000000 ''agt_1''" "\<not> rate_exhausted (store server0) 1000000 ''agt_1''"
    "relay_id sample_request = ''agt_1''"
    by (simp_all add: server0_def rate_admits_def queue_ok_def rate_exhausted_def live_def sample_request_def)
  show ?thesis
    using same_event_id_twice[OF g1 g2 b b _ f, where ?u1.0 = "''u1''" and ?u2.0 = "''u2''"] g1 g2 f s
    by (simp add: DEDUP_TTL_def split_def)
qed

text \<open>
  C3 as stated fails: with the rate-limit window of \<open>agt_1\<close> used up, the first of the
  two requests is answered \<open>rate_limit_exceeded\<close>, neither \<open>delivered\<close> nor
  \<open>queued\<close>; its marker is set all the same, and the second is a duplicate.
\<close>

theorem same_event_id_twice_counterexample:
  "passes_gates sample_env 1000000 sample_request \<and>
   passes_gates sample_env 1000500 sample_request \<and>
   req_body sample_request = ObjBody (Some ''evt_1'') ''{}'' \<and>
   \<not> redis_exists (store busy_server) 1000000 (marker_key ''evt_1'') \<and>
   fst (webhook_route sample_env 1000000 ''u1'' busy_server sample_request) = RateLimitExceeded 30000 \<and>
   fst (webhook_route sample_env 1000500 ''u2''
         (snd (webhook_route sample_env 1000000 ''u1'' busy_server sample_request)) sample_request)
     = DuplicateEvent"
proof -
  have g1: "passes_gates sample_env 1000000 sample_request"
    and g2: "passes_gates sample_env 1000500 sample_request"
    by (rule sample_passes', simp)+
  have b: "req_body sample_request = ObjBody (Some ''evt_1'') ''{}''"
    by (simp add: sample_request_def)
  have f: "\<not> redis_exists (store busy_server) 1000000 (marker_key ''evt_1'')"
    by (simp add: busy_server_def server0_def redis_exists_def live_def marker_key_def)
  have r1: "webhook_route sample_env 1000000 ''u1'' busy_server sample_request
   = (RateLimitExceeded 30000, busy_server\<lparr>store := [''ratelimit:agt_1'' \<mapsto> (Counter 101, Some 1030000),
        ''event:processed:evt_1'' \<mapsto> (Marker, Some 1600000)]\<rparr>)"
    using g1
    apply (simp add: webhook_route_def passes_gates_def)
    apply (simp add: sample_request_def busy_server_def server0_def preventReplay_def redis_exists_def live_def
       redis_setex_def checkRateLimit_def redis_incr_def redis_pttl_def RATE_LIMIT_MAX_def DEDUP_TTL_def truthy_def
       error_response_def)
    apply (rule ext)
    apply simp
    done
  have r2: "fst (webhook_route sample_env 1000500 ''u2''
         (busy_server\<lparr>store := [''ratelimit:agt_1'' \<mapsto> (Counter 101, Some 1030000),
        ''event:processed:evt_1'' \<mapsto> (Marker, Some 1600000)]\<rparr>) sample_request) = DuplicateEvent"
    by (subst route_duplicate[OF g2 b]) (simp_all add: redis_exists_def live_def marker_key_def)
  show ?thesis using g1 g2 b f r1 r2 by simp
qed

section \<open>Header presence\<close>

text \<open>
  C8. A request without a signature header or without a timestamp header is answered
  \<open>unauthorized\<close> (401) at once, and the whole server state is the one before the request:
  the Redis store (replay markers, rate-limit counters, offline queues, pending
  acknowledgments), the registry and the channels.
\<close>

theorem missing_header_unauthorized:
  "signature req = None \<or> timestamp req = None \<Longrightarrow>
     webhook_route e now uuid s req = (Unauthorized, s) \<and> http_code Unauthorized = 401"
  by (auto simp: webhook_route_def truthy_def http_code_def)

text \<open>The sample request without its signature header, on a server with state.\<close>

theorem missing_header_unauthorized_witness:
  "signature unsigned_request = None \<and>
   webhook_route sample_env 1000000 ''u1'' busy_server unsigned_request = (Unauthorized, busy_server)"
  using missing_header_unauthorized[of unsigned_request sample_env 1000000 "''u1''" busy_server]
  by (simp add: unsigned_request_def)

section \<open>Freshness\<close>

text \<open>
  For a timestamp header that \<open>parseInt\<close> reads as the number \<open>t\<close> the gate rejects
  exactly when \<open>|now - t|\<close> exceeds five minutes: 5 minutes 1 second in the past is
  rejected, 4 minutes 59 seconds and exactly 5 minutes are accepted.
\<close>

lemma freshness_gate_numeric:
  "parseInt ts = Some t \<Longrightarrow> timestamp_rejected now ts \<longleftrightarrow> \<not> \<bar>now - t\<bar> \<le> 5 * 60 * 1000"
  by (auto simp: timestamp_rejected_def MAX_AGE_def)

lemma freshness_gate_boundary:
  "timestamp_rejected (1000000 + (5 * 60 + 1) * 1000) ''1000000''"
  "\<not> timestamp_rejected (1000000 + (4 * 60 + 59) * 1000) ''1000000''"
  "\<not> timestamp_rejected (1000000 + 5 * 60 * 1000) ''1000000''"
  "timestamp_rejected (1000000 - (5 * 60 + 1) * 1000) ''1000000''"
  by (simp_all add: timestamp_rejected_def parseInt_sample MAX_AGE_def)

lemma parseInt_abc: "parseInt ''abc'' = None"
  by (simp add: parseInt_def is_ws_def digit_val_def)

lemma garbled_passes: "passes_gates sample_env now garbled_request"
  by (simp add: passes_gates_def garbled_request_def sample_request_def truthy_def
      timestamp_rejected_def parseInt_abc verifySignature_def sample_env_def sample_hmac_2
      timingSafeEqual_def hex_val_def digit_val_def)

text \<open>
  C7 (the code at the failing input). A timestamp header without a leading number, such as
  \<open>abc\<close>, is read as \<open>NaN\<close>, and the gate lets it pass whatever the clock says: the
  request, signed over that header, is accepted and queued.
\<close>

theorem unparsable_timestamp_accepted:
  "parseInt ''abc'' = None \<and> \<not> timestamp_rejected now ''abc'' \<and>
   fst (webhook_route sample_env now ''u1'' server0 garbled_request) = RespQueued"
proof -
  have b: "req_body garbled_request = ObjBody (Some ''evt_1'') ''{}''"
    by (simp add: garbled_request_def sample_request_def)
  have "fst (webhook_route sample_env now ''u1'' server0 garbled_request) = RespQueued"
    by (rule route_admitted(2)[OF garbled_passes b])
       (simp_all add: truthy_def server0_def redis_exists_def live_def rate_admits_def queue_ok_def)
  then show ?thesis
    by (simp add: parseInt_abc timestamp_rejected_def)
qed

text \<open>The same at a present-day clock value, far from any reading of \<open>abc\<close>.\<close>

theorem unparsable_timestamp_accepted_witness:
  "\<not> timestamp_rejected 1700000000000 ''abc'' \<and>
   fst (webhook_route sample_env 1700000000000 ''u1'' server0 garbled_request) = RespQueued"
  using unparsable_timestamp_accepted[of 1700000000000] by simp

section \<open>Requests without an event id\<close>

text \<open>
  C10. A body without an \<open>event_id\<close> field is keyed by the generated UUID. When the
  UUID drawn for a request is not marked yet, the request is not answered
  \<open>duplicate_event\<close> and its marker is set; the same holds for the same body submitted
  again, at any later moment, with the next UUID.
\<close>

theorem missing_event_id_never_duplicate:
  assumes g1: "passes_gates e now1 req" and g2: "passes_gates e now2 req"
    and b: "req_body req = ObjBody None rest"
    and f1: "\<not> redis_exists (store s) now1 (marker_key u1)"
    and f2: "\<not> redis_exists (store (snd (webhook_route e now1 u1 s req))) now2 (marker_key u2)"
  shows "(case webhook_route e now1 u1 s req of
            (resp1, s1) \<Rightarrow>
              resp1 \<noteq> DuplicateEvent \<and>
              store s1 (marker_key u1) = Some (Marker, Some (now1 + 1000 * DEDUP_TTL)) \<and>
              (case webhook_route e now2 u2 s1 req of
                 (resp2, s2) \<Rightarrow>
                   resp2 \<noteq> DuplicateEvent \<and>
                   store s2 (marker_key u2) = Some (Marker, Some (now2 + 1000 * DEDUP_TTL))))"
proof -
  have u1: "u1 = (if truthy None then the None else u1)"
    and u2: "u2 = (if truthy None then the None else u2)"
    by (simp_all add: truthy_def)
  note m1 = route_marks(1,2)[OF g1 b u1 f1]
  note m2 = route_marks(1,2)[OF g2 b u2 f2]
  show ?thesis using m1 m2 by (simp add: split_def DEDUP_TTL_def)
qed

text \<open>The sample request without event id, submitted twice within the replay TTL.\<close>

theorem missing_event_id_never_duplicate_witness:
  "passes_gates sample_env 1000000 anonymous_request \<and>
   passes_gates sample_env 1000500 anonymous_request \<and>
   req_body anonymous_request = ObjBody None ''{}'' \<and>
   \<not> redis_exists (store server0) 1000000 (marker_key ''uuid-1'') \<and>
   \<not> redis_exists (store (snd (webhook_route sample_env 1000000 ''uuid-1'' server0 anonymous_request)))
        1000500 (marker_key ''uuid-2'') \<and>
   fst (webhook_route sample_env 1000000 ''uuid-1'' server0 anonymous_request) \<noteq> DuplicateEvent \<and>
   fst (webhook_route sample_env 1000500 ''uuid-2''
          (snd (webhook_route sample_env 1000000 ''uuid-1'' server0 anonymous_request))
          anonymous_request) \<noteq> DuplicateEvent"
proof -
  have g1: "passes_gates sample_env 1000000 anonymous_request"
    and g2: "passes_gates sample_env 1000500 anonymous_request"
    unfolding anonymous_request_def by (rule sample_passes, simp)+
  have b: "req_body anonymous_request = ObjBody None ''{}''"
    by (simp add: anonymous_request_def)
  have f1: "\<not> redis_exists (store server0) 1000000 (marker_key ''uuid-1'')"
    by (simp add: server0_def redis_exists_def live_def)
  have r1: "store (snd (webhook_route sample_env 1000000 ''uuid-1'' server0 anonymous_request))
      = [''event:processed:uuid-1'' \<mapsto> (Marker, Some 1600000),
         ''ratelimit:agt_1'' \<mapsto> (Counter 1, Some 1060000),
         ''queue:pending:agt_1'' \<mapsto> (Queue [Event ''uuid-1'' ''sha256=1d'' (ObjBody None ''{}'')], None)]"
    using g1
    apply (simp add: webhook_route_def passes_gates_def)
    apply (simp add: anonymous_request_def sample_request_def server0_def preventReplay_def
       redis_exists_def live_def redis_setex_def checkRateLimit_def redis_incr_def redis_pttl_def
       redis_pexpire_def RATE_LIMIT_MAX_def RATE_LIMIT_WINDOW_def DEDUP_TTL_def truthy_def
       sendWebhook_def redis_lpush_def Let_def)
    done
  have f2: "\<not> redis_exists (store (snd (webhook_route sample_env 1000000 ''uuid-1'' server0 anonymous_request)))
        1000500 (marker_key ''uuid-2'')"
    by (simp add: r1 redis_exists_def live_def marker_key_def)
  show ?thesis
    using missing_event_id_never_duplicate[OF g1 g2 b f1 f2] g1 g2 b f1 f2
    by (simp add: split_def)
qed

section \<open>The replay guard under interleaving: the check and the mark\<close>

text \<open>Run without interruption, the two steps of a task are \<open>preventReplay\<close>.\<close>

lemma replay_steps_are_preventReplay:
  "(case replay_step r now eventId AtExists of
      (Thrown, r1) \<Rightarrow> (Inl ReplayError, r1)
    | (pc, r1) \<Rightarrow> (Inr (), snd (replay_step r1 now eventId pc)))
   = preventReplay r now eventId"
  by (simp add: replay_step_def preventReplay_def)

text \<open>When one task finishes its guard before the other starts, exactly one passes.\<close>

lemma sequential_replay_one_passes:
  "\<not> redis_exists r now (marker_key eventId) \<Longrightarrow>
   fst (interleave now eventId eventId [True, True, False, False] (AtExists, AtExists, r)) = Passed \<and>
   fst (snd (interleave now eventId eventId [True, True, False, False] (AtExists, AtExists, r))) = Thrown"
  by (simp add: replay_step_def marker_key_def redis_exists_def redis_setex_def live_def DEDUP_TTL_def)

text \<open>
  C2 (the code at the failing input). Two ingestions of the same event id, scheduled so
  that both run \<open>redis.exists\<close> before either runs \<open>redis.setex\<close>: both find no
  marker and both pass the replay guard. The check and the mark are two Redis commands
  with a suspension in between, not one atomic test-and-set.
\<close>

theorem interleaved_replay_both_pass:
  "interleave now eventId eventId [True, False, True, False] (AtExists, AtExists, Map.empty)
   = (Passed, Passed, [marker_key eventId \<mapsto> (Marker, Some (now + 1000 * DEDUP_TTL))])"
  by (simp add: replay_step_def marker_key_def redis_exists_def redis_setex_def live_def)

section \<open>Acknowledgments\<close>


text \<open>
  C6 (as amended). \<open>handleAck\<close> removes the pending-acknowledgment record of the event
  id and nothing else, the same for every relay id given to it: the recorded relay id is
  not compared. When the event id has no pending record (an unknown id), every live
  record is as before.
\<close>

theorem handleAck_effect:
  "store (handleAck s rid eventId) (ack_key eventId) = None \<and>
   (\<forall>k. k \<noteq> ack_key eventId \<longrightarrow> store (handleAck s rid eventId) k = store s k) \<and>
   connections (handleAck s rid eventId) = connections s \<and>
   channels (handleAck s rid eventId) = channels s \<and>
   handleAck s rid eventId = handleAck s rid' eventId \<and>
   (live (store s) now (ack_key eventId) = None \<longrightarrow>
      (\<forall>k. live (store (handleAck s rid eventId)) now k = live (store s) now k))"
  by (auto simp: handleAck_def redis_del_def ack_key_def live_def)

text \<open>The sample states, computed.\<close>

lemma online_server_eq:
  "online_server =
     \<lparr>entries = [(''agt_1'', \<lparr>relayId = ''agt_1'', socket = 1, sessionId = ''sess-1'',
                              connectedAt = 900000, lastPing = 900000\<rparr>)],
      store = [''session:agt_1'' \<mapsto> (Session ''sess-1'' 900000, Some 87300000)],
      channels = (channels server0)
        (1 := \<lparr>is_open = True, outbox = [AuthSuccess ''agt_1'' ''sess-1''], authenticated = True,
               chan_relayId = Some ''agt_1''\<rparr>)\<rparr>"
  by (simp add: online_server_def on_message_def sample_env_def sample_verify_def server0_def
        redis_setex_def socket_send_def Let_def)

lemma delivered_server_eq:
  "delivered_server =
     \<lparr>entries = [(''agt_1'', \<lparr>relayId = ''agt_1'', socket = 1, sessionId = ''sess-1'',
                              connectedAt = 900000, lastPing = 900000\<rparr>)],
      store = [''session:agt_1'' \<mapsto> (Session ''sess-1'' 900000, Some 87300000),
               ''ack:pending:evt_1'' \<mapsto> (PendingAck ''agt_1'' 1000000, Some 1030000)],
      channels = (channels server0)
        (1 := \<lparr>is_open = True,
               outbox = [AuthSuccess ''agt_1'' ''sess-1'',
                         WebhookFrame ''evt_1'' ''sha256=1d'' (ObjBody (Some ''evt_1'') ''{}'')],
               authenticated = True, chan_relayId = Some ''agt_1''\<rparr>)\<rparr>"
  by (simp add: delivered_server_def online_server_eq sendWebhook_def sample_event_def
        redis_setex_def socket_send_def Let_def server0_def)

text \<open>The event delivered to \<open>agt_1\<close> is acknowledged; an unknown id changes nothing.\<close>

theorem handleAck_effect_witness:
  "store delivered_server (ack_key ''evt_1'') = Some (PendingAck ''agt_1'' 1000000, Some 1030000) \<and>
   store (handleAck delivered_server ''agt_1'' ''evt_1'') (ack_key ''evt_1'') = None \<and>
   ''session:agt_1'' \<noteq> ack_key ''evt_1'' \<and>
   store (handleAck delivered_server ''agt_1'' ''evt_1'') ''session:agt_1''
     = store delivered_server ''session:agt_1'' \<and>
   live (store delivered_server) 1000500 (ack_key ''evt_9'') = None \<and>
   live (store (handleAck delivered_server ''agt_1'' ''evt_9'')) 1000500 (ack_key ''evt_1'')
     = Some (PendingAck ''agt_1'' 1000000, Some 1030000)"
proof -
  have a: "store delivered_server (ack_key ''evt_1'') = Some (PendingAck ''agt_1'' 1000000, Some 1030000)"
    and b: "live (store delivered_server) 1000500 (ack_key ''evt_9'') = None"
    and c: "live (store delivered_server) 1000500 (ack_key ''evt_1'')
              = Some (PendingAck ''agt_1'' 1000000, Some 1030000)"
    by (simp_all add: delivered_server_eq ack_key_def live_def)
  show ?thesis
    using handleAck_effect[of delivered_server "''agt_1''" "''evt_1''" "''agt_1''" 1000500]
      handleAck_effect[of delivered_server "''agt_1''" "''evt_9''" "''agt_1''" 1000500] a b c
    by (simp add: ack_key_def)
qed

text \<open>
  C6 as stated fails: \<open>agt_2\<close> authenticates on channel 2 and acknowledges \<open>evt_1\<close>,
  which was delivered to \<open>agt_1\<close>; the pending record of \<open>agt_1\<close> is removed.
\<close>

theorem handleAck_counterexample:
  "store delivered_server (ack_key ''evt_1'') = Some (PendingAck ''agt_1'' 1000000, Some 1030000) \<and>
   authenticated (channels (on_message sample_env 1000100 ''sess-2'' delivered_server 2
                     (Auth ''agt_2'' ''sk_2'')) 2) \<and>
   store (on_message sample_env 1000200 ''x''
            (on_message sample_env 1000100 ''sess-2'' delivered_server 2 (Auth ''agt_2'' ''sk_2''))
            2 (Ack ''evt_1''))
         (ack_key ''evt_1'') = None \<and>
   store (handleAck delivered_server ''agt_2'' ''evt_1'') (ack_key ''evt_1'') = None"
  by (simp add: delivered_server_eq on_message_def sample_env_def sample_verify_def server0_def
        redis_setex_def socket_send_def Let_def handleAck_def redis_del_def ack_key_def)

section \<open>A second authentication for the same relay id\<close>












lemma store_update_reads [simp]:
  "not_registered c (s\<lparr>store := r\<rparr>) = not_registered c s"
  "deliveries (s\<lparr>store := r\<rparr>) c = deliveries s c"
  by (simp_all add: not_registered_def deliveries_def)











text \<open>The sample state after both authentications, computed.\<close>

lemma twice_authenticated_eq:
  "twice_authenticated =
     \<lparr>entries = [(''agt_1'', \<lparr>relayId = ''agt_1'', socket = 2, sessionId = ''sess-2'',
                              connectedAt = 950000, lastPing = 950000\<rparr>)],
      store = [''session:agt_1'' \<mapsto> (Session ''sess-2'' 950000, Some 87350000)],
      channels = (channels server0)
        (1 := \<lparr>is_open = True, outbox = [AuthSuccess ''agt_1'' ''sess-1''], authenticated = True,
               chan_relayId = Some ''agt_1''\<rparr>,
         2 := \<lparr>is_open = True, outbox = [AuthSuccess ''agt_1'' ''sess-2''], authenticated = True,
               chan_relayId = Some ''agt_1''\<rparr>)\<rparr>"
  by (simp add: twice_authenticated_def online_server_eq on_message_def sample_env_def
        sample_verify_def server0_def redis_setex_def socket_send_def Let_def)



text \<open>
  When the superseded channel closes later, its close handler deletes the registry entry
  of its relay id, which by then belongs to the second channel: the second channel stays
  open and authenticated, and the next event for the agent is queued.
\<close>

lemma stale_close_unregisters_successor:
  "connections (on_close twice_authenticated 1) ''agt_1'' = None \<and>
   is_open (channels (on_close twice_authenticated 1) 2) \<and>
   authenticated (channels (on_close twice_authenticated 1) 2) \<and>
   fst (sendWebhook (on_close twice_authenticated 1) 1000000 ''agt_1'' sample_event) = Inr Queued"
  by (simp add: twice_authenticated_eq on_close_def truthy_def redis_del_def sendWebhook_def
        redis_lpush_def live_def Let_def)

section \<open>The client after an authentication error\<close>

lemma reconnect_initiates:
  "(\<exists>a \<in> set (snd (reconnect rnd c)). is_reconnect a) \<longleftrightarrow> \<not> attempts_exhausted c"
  by (simp add: reconnect_def is_reconnect_def Let_def)

lemma handleClose_initiates:
  "(\<exists>a \<in> set (snd (handleClose rnd c)). is_reconnect a)
     \<longleftrightarrow> shouldReconnect c \<and> autoReconnect c \<and> \<not> attempts_exhausted c"
  by (auto simp: handleClose_def reconnect_def is_reconnect_def Let_def attempts_exhausted_def
        split: prod.splits option.splits)

lemma step_keeps_stopped:
  "\<not> shouldReconnect c \<Longrightarrow> channel_event ev \<Longrightarrow>
     \<not> shouldReconnect (fst (client_step c ev)) \<and>
     (\<forall>a \<in> set (snd (client_step c ev)). \<not> is_reconnect a)"
  by (cases ev)
     (auto simp: client_step_def handleAuthSuccess_def handleAuthError_def handleClose_def
        disconnect_def is_reconnect_def channel_event_def Let_def)

lemma run_keeps_stopped:
  "\<not> shouldReconnect c \<Longrightarrow> list_all channel_event evs \<Longrightarrow>
     \<forall>a \<in> set (snd (client_run c evs)). \<not> is_reconnect a"
proof (induction evs arbitrary: c)
  case Nil
  then show ?case by simp
next
  case (Cons ev evs)
  obtain c1 acts where s: "client_step c ev = (c1, acts)" by (cases "client_step c ev")
  obtain c2 acts' where r: "client_run c1 evs = (c2, acts')" by (cases "client_run c1 evs")
  have "\<not> shouldReconnect c1" and "\<forall>a \<in> set acts. \<not> is_reconnect a"
    using step_keeps_stopped[OF Cons.prems(1), of ev] Cons.prems(2) s by simp_all
  moreover from this have "\<forall>a \<in> set acts'. \<not> is_reconnect a"
    using Cons.IH[of c1] Cons.prems(2) r by simp
  ultimately show ?case using s r by auto
qed

text \<open>
  C4 (as amended). On an \<open>auth_error\<close> frame the client emits an error to the caller,
  rejects the pending \<open>connect()\<close>, changes none of its fields and starts no reconnect.
  A later close of the channel starts a reconnect attempt exactly when \<open>shouldReconnect\<close>
  and \<open>autoReconnect\<close> are set and the attempts are not used up. Once the caller has
  called \<open>disconnect()\<close>, no close of the channel and no authentication frame starts one.
\<close>

theorem auth_error_no_retry_of_its_own:
  "handleAuthError c msg
     = (c, [EmitError (if truthy msg then the msg else ''Authentication failed''),
            RejectConnect (if truthy msg then the msg else ''Authentication failed'')]) \<and>
   (\<forall>a \<in> set (snd (handleAuthError c msg)). \<not> is_reconnect a) \<and>
   ((\<exists>a \<in> set (snd (handleClose rnd (fst (handleAuthError c msg)))). is_reconnect a)
      \<longleftrightarrow> shouldReconnect c \<and> autoReconnect c \<and> \<not> attempts_exhausted c) \<and>
   (list_all channel_event evs \<longrightarrow>
      (\<forall>a \<in> set (snd (client_run (fst (disconnect (fst (handleAuthError c msg)))) evs)).
         \<not> is_reconnect a))"
proof -
  have h: "handleAuthError c msg
     = (c, [EmitError (if truthy msg then the msg else ''Authentication failed''),
            RejectConnect (if truthy msg then the msg else ''Authentication failed'')])"
    by (simp add: handleAuthError_def Let_def)
  have n: "\<forall>a \<in> set (snd (handleAuthError c msg)). \<not> is_reconnect a"
    unfolding h by (simp add: is_reconnect_def)
  have d: "\<not> shouldReconnect (fst (disconnect c))"
    by (simp add: disconnect_def)
  show ?thesis
    using n handleClose_initiates[of rnd c] run_keeps_stopped[OF d, of evs]
    unfolding h by simp
qed

lemma backoff_default: "exponentialBackoff 1 5000 (1/2) = 5000"
  by (simp add: exponentialBackoff_def pow2_def)

text \<open>The default client: an \<open>auth_error\<close>, then a close; and the same after \<open>disconnect()\<close>.\<close>

theorem auth_error_no_retry_of_its_own_witness:
  "snd (handleAuthError default_client None)
     = [EmitError ''Authentication failed'', RejectConnect ''Authentication failed''] \<and>
   shouldReconnect default_client \<and> autoReconnect default_client \<and>
   \<not> attempts_exhausted default_client \<and>
   (\<exists>a \<in> set (snd (handleClose (1/2) (fst (handleAuthError default_client None)))). is_reconnect a) \<and>
   list_all channel_event [ChannelClosed (1/2), RecvAuthError None, ChannelClosed (1/2)] \<and>
   snd (client_run (fst (disconnect default_client)) [ChannelClosed (1/2), RecvAuthError None, ChannelClosed (1/2)])
     = [EmitDisconnected, EmitError ''Authentication failed'', RejectConnect ''Authentication failed'',
        EmitDisconnected]"
proof -
  have d: "shouldReconnect default_client" "autoReconnect default_client"
    "\<not> attempts_exhausted default_client"
    by (simp_all add: default_client_def attempts_exhausted_def)
  have r: "snd (client_run (fst (disconnect default_client))
               [ChannelClosed (1/2), RecvAuthError None, ChannelClosed (1/2)])
     = [EmitDisconnected, EmitError ''Authentication failed'', RejectConnect ''Authentication failed'',
        EmitDisconnected]"
    by (simp add: default_client_def disconnect_def client_step_def handleClose_def
          handleAuthError_def truthy_def Let_def)
  have l: "list_all channel_event [ChannelClosed (1/2), RecvAuthError None, ChannelClosed (1/2)]"
    by (simp add: channel_event_def)
  note t = auth_error_no_retry_of_its_own[of default_client None "1/2"
             "[ChannelClosed (1/2), RecvAuthError None, ChannelClosed (1/2)]"]
  have a: "snd (handleAuthError default_client None)
     = [EmitError ''Authentication failed'', RejectConnect ''Authentication failed'']"
    using t by (simp add: truthy_def)
  have e: "\<exists>a \<in> set (snd (handleClose (1/2) (fst (handleAuthError default_client None)))).
             is_reconnect a"
    using t d by blast
  show ?thesis
    using a d e r l by blast
qed

text \<open>
  C4 as stated fails: the default client receives \<open>auth_error\<close>, the channel closes,
  and the client announces attempt 1 and reconnects after its backoff delay.
\<close>

theorem auth_error_then_close_counterexample:
  "snd (client_run default_client [RecvAuthError None, ChannelClosed (1/2)])
     = [EmitError ''Authentication failed'', RejectConnect ''Authentication failed'',
        EmitDisconnected, EmitReconnecting 1 5000, ConnectAfter 5000] \<and>
   is_reconnect (ConnectAfter 5000)"
  by (simp add: default_client_def client_step_def handleClose_def handleAuthError_def
        reconnect_def attempts_exhausted_def truthy_def Let_def backoff_default is_reconnect_def)

section \<open>Bounds of the reconnect delay\<close>

lemma pow2_attempt: "1 \<le> n \<Longrightarrow> pow2 (n - 1) = 2 ^ nat (n - 1)"
  by (simp add: pow2_def)

lemma jitter_bounds:
  fixes d rnd :: real
  assumes "0 \<le> d" "0 \<le> rnd" "rnd < 1"
  shows "0.9 * d \<le> d + d * 0.2 * (rnd - 0.5)" and "d + d * 0.2 * (rnd - 0.5) \<le> 1.1 * d"
proof -
  have a: "0 \<le> d * rnd" using assms by simp
  have b: "d * rnd \<le> d" using assms by (simp add: mult_left_le)
  have e: "d + d * 0.2 * (rnd - 0.5) = 0.9 * d + 0.2 * (d * rnd)"
    by (simp add: algebra_simps)
  show "0.9 * d \<le> d + d * 0.2 * (rnd - 0.5)" using a e by simp
  show "d + d * 0.2 * (rnd - 0.5) \<le> 1.1 * d" using b e by simp
qed

text \<open>
  C5 (as amended). For every attempt \<open>n \<ge> 1\<close>, every base delay of at least 10 ms and
  every draw in \<open>[0, 1)\<close>, the delay lies between 0.8 and 1.2 times
  \<open>min(base * 2^(n-1), 30000)\<close>.
\<close>

theorem exponentialBackoff_bounds:
  assumes n: "1 \<le> n" and base: "10 \<le> base" and r0: "0 \<le> rnd" and r1: "rnd < 1"
  shows "0.8 * min (base * 2 ^ nat (n - 1)) 30000 \<le> real_of_int (exponentialBackoff n base rnd) \<and>
         real_of_int (exponentialBackoff n base rnd) \<le> 1.2 * min (base * 2 ^ nat (n - 1)) 30000"
proof -
  define d where "d = min (base * 2 ^ nat (n - 1)) (30000 :: real)"
  have p: "(1 :: real) \<le> 2 ^ nat (n - 1)" by simp
  have bb: "base \<le> base * 2 ^ nat (n - 1)"
    using mult_left_mono[of 1 "2 ^ nat (n - 1)" base] base p by simp
  have d10: "10 \<le> d"
    unfolding d_def using bb base by linarith
  have eb: "exponentialBackoff n base rnd = \<lfloor>d + d * 0.2 * (rnd - 0.5)\<rfloor>"
    using n by (simp add: exponentialBackoff_def pow2_attempt d_def Let_def)
  note j = jitter_bounds[of d rnd, OF _ r0 r1]
  have lo: "0.9 * d - 1 < real_of_int \<lfloor>d + d * 0.2 * (rnd - 0.5)\<rfloor>"
    using j(1) d10 by linarith
  have hi: "real_of_int \<lfloor>d + d * 0.2 * (rnd - 0.5)\<rfloor> \<le> 1.1 * d"
    using j(2) d10 by linarith
  show ?thesis
    unfolding eb d_def[symmetric] using lo hi d10 by simp
qed

text \<open>The first attempt with a base delay of one second and the draw 1/2.\<close>

theorem exponentialBackoff_bounds_witness:
  "(1::int) \<le> 1 \<and> (10::real) \<le> 1000 \<and> (0::real) \<le> 1/2 \<and> (1/2::real) < 1 \<and>
   exponentialBackoff 1 1000 (1/2) = 1000 \<and>
   0.8 * min (1000 * 2 ^ nat (1 - 1)) 30000 \<le> real_of_int (exponentialBackoff 1 1000 (1/2)) \<and>
   real_of_int (exponentialBackoff 1 1000 (1/2)) \<le> 1.2 * min (1000 * 2 ^ nat (1 - 1)) 30000"
proof -
  have e: "exponentialBackoff 1 1000 (1/2) = 1000"
    by (simp add: exponentialBackoff_def pow2_def)
  show ?thesis
    using exponentialBackoff_bounds[of 1 1000 "1/2"] e by simp
qed

text \<open>
  C5 as stated fails for a small base delay: with \<open>base = 1\<close> and the draw 1/4 the sum
  is 0.95, \<open>Math.floor\<close> makes it 0, and 0 is below \<open>0.8 * 1\<close>.
\<close>

theorem exponentialBackoff_bounds_counterexample:
  "exponentialBackoff 1 1 (1/4) = 0 \<and>
   \<not> (0.8 * min (1 * 2 ^ nat (1 - 1)) 30000 \<le> real_of_int (exponentialBackoff 1 1 (1/4)))"
proof -
  have "(1::real) + 1 * 0.2 * (1/4 - 0.5) = 19/20" by simp
  then have e: "exponentialBackoff 1 1 (1/4) = 0"
    by (simp add: exponentialBackoff_def pow2_def)
  show ?thesis unfolding e by simp
qed

section \<open>UTF-8 decoding of encoded code points\<close>

text \<open>
  The steps of the decoder on a lead byte and on a continuation byte, then the four
  encoded lengths.
\<close>

lemma dec_ascii: "b < 0x80 \<Longrightarrow> utf8_dec 0 0 0x80 0xBF (b # bs) = b # utf8_dec 0 0 0x80 0xBF bs"
  by simp

lemma dec_lead2:
  "2 \<le> a \<Longrightarrow> a < 32 \<Longrightarrow> utf8_dec 0 0 0x80 0xBF ((0xC0 + a) # bs) = utf8_dec a 1 0x80 0xBF bs"
  by simp

lemma dec_lead3:
  "a < 16 \<Longrightarrow> utf8_dec 0 0 0x80 0xBF ((0xE0 + a) # bs)
     = utf8_dec a 2 (if a = 0 then 0xA0 else 0x80) (if a = 13 then 0x9F else 0xBF) bs"
  by simp

lemma dec_lead4:
  "a \<le> 4 \<Longrightarrow> utf8_dec 0 0 0x80 0xBF ((0xF0 + a) # bs)
     = utf8_dec a 3 (if a = 0 then 0x90 else 0x80) (if a = 4 then 0x8F else 0xBF) bs"
  by simp

lemma dec_cont_last:
  "lo \<le> 0x80 + c \<Longrightarrow> 0x80 + c \<le> hi \<Longrightarrow>
   utf8_dec cp (Suc 0) lo hi ((0x80 + c) # bs) = (cp * 0x40 + c) # utf8_dec 0 0 0x80 0xBF bs"
  by simp

lemma dec_cont_mid:
  "2 \<le> need \<Longrightarrow> lo \<le> 0x80 + c \<Longrightarrow> 0x80 + c \<le> hi \<Longrightarrow>
   utf8_dec cp need lo hi ((0x80 + c) # bs) = utf8_dec (cp * 0x40 + c) (need - 1) 0x80 0xBF bs"
  by simp

declare utf8_dec.simps [simp del]

lemma div_4096: "(n::nat) div 0x1000 = n div 0x40 div 0x40"
  using div_mult2_eq[of n 64 64] by simp

lemma div_262144: "(n::nat) div 0x40000 = n div 0x40 div 0x40 div 0x40"
  using div_mult2_eq[of n 4096 64] div_4096[of n] by simp

lemma dec_enc_cp2:
  assumes "0x80 \<le> cp" "cp < 0x800"
  shows "utf8_dec 0 0 0x80 0xBF (encode_cp cp @ bs) = cp # utf8_dec 0 0 0x80 0xBF bs"
proof -
  define a c where "a = cp div 0x40" and "c = cp mod 0x40"
  have cp: "a * 0x40 + c = cp" and c: "c < 0x40"
    unfolding a_def c_def by simp_all
  have a: "2 \<le> a" "a < 32"
    using assms cp c by linarith+
  have "encode_cp cp = [0xC0 + a, 0x80 + c]"
    using assms by (simp add: encode_cp_def a_def c_def)
  then show ?thesis
    using a c cp by (simp add: dec_lead2 dec_cont_last)
qed

lemma dec_enc_cp3:
  assumes "0x800 \<le> cp" "cp < 0x10000" "\<not> is_high cp" "\<not> is_low cp"
  shows "utf8_dec 0 0 0x80 0xBF (encode_cp cp @ bs) = cp # utf8_dec 0 0 0x80 0xBF bs"
proof -
  define q a b c where "q = cp div 0x40" and "a = q div 0x40" and "b = q mod 0x40"
    and "c = cp mod 0x40"
  have cp: "q * 0x40 + c = cp" and q: "a * 0x40 + b = q" and b: "b < 0x40" and c: "c < 0x40"
    unfolding q_def a_def b_def c_def by simp_all
  have a: "a < 16"
    using assms cp q b c by linarith
  have lo: "a = 0 \<Longrightarrow> 32 \<le> b"
    using assms cp q b c by linarith
  have hi: "a = 13 \<Longrightarrow> b < 32"
    using assms cp q b c unfolding is_high_def is_low_def by linarith
  have lo': "(if a = 0 then 0xA0 else 0x80) \<le> 0x80 + b"
    and hi': "0x80 + b \<le> (if a = 13 then 0x9F else 0xBF)"
    using lo hi b by auto
  have e: "encode_cp cp = [0xE0 + a, 0x80 + b, 0x80 + c]"
    using assms by (simp add: encode_cp_def a_def b_def c_def q_def div_4096)
  have v: "(a * 0x40 + b) * 0x40 + c = cp"
    using cp q by simp
  have "utf8_dec 0 0 0x80 0xBF (encode_cp cp @ bs)
      = utf8_dec a 2 (if a = 0 then 0xA0 else 0x80) (if a = 13 then 0x9F else 0xBF)
          ((0x80 + b) # (0x80 + c) # bs)"
    unfolding e using dec_lead3[OF a] by simp
  also have "\<dots> = utf8_dec (a * 0x40 + b) (Suc 0) 0x80 0xBF ((0x80 + c) # bs)"
    using dec_cont_mid[OF _ lo' hi', of 2 a "(0x80 + c) # bs"] by simp
  also have "\<dots> = ((a * 0x40 + b) * 0x40 + c) # utf8_dec 0 0 0x80 0xBF bs"
    using c by (intro dec_cont_last) simp_all
  finally show ?thesis
    unfolding v .
qed

lemma dec_enc_cp4:
  assumes "0x10000 \<le> cp" "cp < 0x110000"
  shows "utf8_dec 0 0 0x80 0xBF (encode_cp cp @ bs) = cp # utf8_dec 0 0 0x80 0xBF bs"
proof -
  define q1 q2 a b1 b2 c where "q1 = cp div 0x40" and "q2 = q1 div 0x40"
    and "a = q2 div 0x40" and "b1 = q2 mod 0x40" and "b2 = q1 mod 0x40" and "c = cp mod 0x40"
  have cp: "q1 * 0x40 + c = cp" and q1: "q2 * 0x40 + b2 = q1" and q2: "a * 0x40 + b1 = q2"
    and b: "b1 < 0x40" "b2 < 0x40" and c: "c < 0x40"
    unfolding q1_def q2_def a_def b1_def b2_def c_def by simp_all
  have a: "a \<le> 4"
    using assms cp q1 q2 b c by linarith
  have lo: "a = 0 \<Longrightarrow> 16 \<le> b1"
    using assms cp q1 q2 b c by linarith
  have hi: "a = 4 \<Longrightarrow> b1 < 16"
    using assms cp q1 q2 b c by linarith
  have lo': "(if a = 0 then 0x90 else 0x80) \<le> 0x80 + b1"
    and hi': "0x80 + b1 \<le> (if a = 4 then 0x8F else 0xBF)"
    using lo hi b by auto
  have e: "encode_cp cp = [0xF0 + a, 0x80 + b1, 0x80 + b2, 0x80 + c]"
    using assms
    by (simp add: encode_cp_def a_def b1_def b2_def c_def q1_def q2_def div_4096 div_262144)
  have v: "((a * 0x40 + b1) * 0x40 + b2) * 0x40 + c = cp"
    using cp q1 q2 by simp
  have "utf8_dec 0 0 0x80 0xBF (encode_cp cp @ bs)
      = utf8_dec a 3 (if a = 0 then 0x90 else 0x80) (if a = 4 then 0x8F else 0xBF)
          ((0x80 + b1) # (0x80 + b2) # (0x80 + c) # bs)"
    unfolding e using dec_lead4[OF a] by simp
  also have "\<dots> = utf8_dec (a * 0x40 + b1) 2 0x80 0xBF ((0x80 + b2) # (0x80 + c) # bs)"
    using dec_cont_mid[OF _ lo' hi', of 3 a "(0x80 + b2) # (0x80 + c) # bs"] by simp
  also have "\<dots> = utf8_dec ((a * 0x40 + b1) * 0x40 + b2) (Suc 0) 0x80 0xBF ((0x80 + c) # bs)"
    using dec_cont_mid[of 2 "0x80" b2 "0xBF" "a * 0x40 + b1" "(0x80 + c) # bs"] b by simp
  also have "\<dots> = (((a * 0x40 + b1) * 0x40 + b2) * 0x40 + c) # utf8_dec 0 0 0x80 0xBF bs"
    using c by (intro dec_cont_last) simp_all
  finally show ?thesis
    unfolding v .
qed

lemma dec_enc_cp:
  assumes "scalar cp"
  shows "utf8_dec 0 0 0x80 0xBF (encode_cp cp @ bs) = cp # utf8_dec 0 0 0x80 0xBF bs"
proof -
  consider "cp < 0x80" | "0x80 \<le> cp" "cp < 0x800" | "0x800 \<le> cp" "cp < 0x10000"
    | "0x10000 \<le> cp" "cp < 0x110000"
    using assms unfolding scalar_def by linarith
  then show ?thesis
  proof cases
    case 1
    then show ?thesis by (simp add: encode_cp_def dec_ascii)
  next
    case 2
    then show ?thesis by (rule dec_enc_cp2)
  next
    case 3
    then show ?thesis using assms by (intro dec_enc_cp3) (simp_all add: scalar_def)
  next
    case 4
    then show ?thesis by (rule dec_enc_cp4)
  qed
qed

text \<open>
  Decoding the encoding of a string gives the string back when it has no unpaired
  surrogate; an unpaired surrogate comes back as U+FFFD.
\<close>

lemma dec_enc_all:
  "\<forall>cp \<in> set cps. scalar cp \<Longrightarrow> utf8_dec 0 0 0x80 0xBF (concat (map encode_cp cps)) = cps"
  by (induction cps) (simp_all add: dec_enc_cp utf8_dec.simps)

lemma scalar_of_plain: "u < 0x10000 \<Longrightarrow> \<not> is_high u \<Longrightarrow> \<not> is_low u \<Longrightarrow> scalar_of u = u \<and> scalar u"
  by (simp add: scalar_of_def scalar_def)

lemma pair_scalar:
  "is_high u \<Longrightarrow> is_low l \<Longrightarrow>
   scalar (0x10000 + (u - 0xD800) * 0x400 + (l - 0xDC00)) \<and>
   code_units (0x10000 + (u - 0xD800) * 0x400 + (l - 0xDC00)) = [u, l]"
proof -
  assume "is_high u" "is_low l"
  then have r: "0xD800 \<le> u" "u < 0xDC00" "0xDC00 \<le> l" "l < 0xE000"
    by (simp_all add: is_high_def is_low_def)
  define h m where "h = u - 0xD800" and "m = l - 0xDC00"
  have u: "u = 0xD800 + h" and h: "h < 0x400" and l: "l = 0xDC00 + m" and m: "m < 0x400"
    using r unfolding h_def m_def by linarith+
  show ?thesis
    using h m unfolding u l by (simp add: scalar_def is_high_def is_low_def code_units_def)
qed

lemma well_formed_code_points:
  "well_formed us \<Longrightarrow>
   (\<forall>cp \<in> set (code_points us). scalar cp) \<and> concat (map code_units (code_points us)) = us"
proof (induction us rule: code_points.induct)
  case 1
  then show ?case by simp
next
  case (2 u)
  then show ?case
    using scalar_of_plain[of u] by (simp add: code_units_def)
next
  case (3 u l us)
  show ?case
  proof (cases "is_high u")
    case True
    then have l: "is_low l" and w: "well_formed us" using "3.prems" by simp_all
    show ?thesis
      using True l "3.IH"(1)[OF _ w] pair_scalar[OF True l] by simp
  next
    case False
    then have p: "u < 0x10000" "\<not> is_low u" and w: "well_formed (l # us)"
      using "3.prems" by simp_all
    show ?thesis
      using False p "3.IH"(2)[OF _ w] scalar_of_plain[OF p(1) False p(2)]
      by (simp add: code_units_def)
  qed
qed

lemma encode_cp_bytes: "cp < 0x110000 \<Longrightarrow> \<forall>b \<in> set (encode_cp cp). b < 256"
  by (auto simp: encode_cp_def)

lemma unat_byte: "b < 256 \<Longrightarrow> unat (of_nat b :: byte) = b"
  by (simp add: unat_of_nat)

lemma map_unat_bytes: "\<forall>b \<in> set bs. b < 256 \<Longrightarrow> map unat (map of_nat bs :: byte list) = bs"
  by (induction bs) (simp_all add: unat_byte)

lemma map_of_nat_unat: "map of_nat (map unat s) = (s :: 'a::len word list)"
  by (induction s) simp_all

lemma scalar_bound: "scalar cp \<Longrightarrow> cp < 0x110000"
  by (simp add: scalar_def)

lemma utf8_roundtrip:
  assumes "well_formed (map unat s)"
  shows "utf8_decode (utf8_encode s) = s"
proof -
  let ?cps = "code_points (map unat s)"
  note w = well_formed_code_points[OF assms]
  have "\<forall>b \<in> set (concat (map encode_cp ?cps)). b < 256"
    using w encode_cp_bytes scalar_bound by fastforce
  then have "map unat (utf8_encode s) = concat (map encode_cp ?cps)"
    unfolding utf8_encode_def by (rule map_unat_bytes)
  then have "utf8_decode (utf8_encode s) = map of_nat (concat (map code_units ?cps))"
    using w dec_enc_all[of ?cps] by (simp add: utf8_decode_def del: map_map)
  also have "\<dots> = map of_nat (map unat s)"
    using w by simp
  finally show ?thesis
    unfolding map_of_nat_unat .
qed

lemma lone_surrogate_replaced: "utf8_decode (utf8_encode [0xD800]) = [0xFFFD]"
  by (simp add: utf8_decode_def utf8_encode_def scalar_of_def is_high_def is_low_def
        encode_cp_def code_units_def utf8_dec.simps)

section \<open>Hex fields and their separator\<close>

lemma nibble_cases:
  "d < 16 \<Longrightarrow>
   d = 0 \<or> d = 1 \<or> d = 2 \<or> d = 3 \<or> d = 4 \<or> d = 5 \<or> d = 6 \<or> d = 7 \<or> d = 8 \<or> d = 9 \<or>
   d = 10 \<or> d = 11 \<or> d = 12 \<or> d = 13 \<or> d = 14 \<or> d = (15::nat)"
  by presburger

lemma hex_val_hex_char: "d < 16 \<Longrightarrow> hex_val (hex_char d) = Some d"
  by (drule nibble_cases, elim disjE) (simp_all add: hex_char_def hex_val_def digit_val_def)

lemma hex_char_not_colon: "d < 16 \<Longrightarrow> hex_char d \<noteq> CHR '':''"
  by (drule nibble_cases, elim disjE) (simp_all add: hex_char_def)

lemma byte_nibbles: "unat (b :: byte) div 16 < 16" "unat b mod 16 < 16"
proof -
  have "unat b < 256" using unsigned_less[of b, where 'a = nat] by simp
  then show "unat b div 16 < 16" by simp
  show "unat b mod 16 < 16" by simp
qed

lemma byte_of_nibbles: "(of_nat (16 * (unat (b :: byte) div 16) + unat b mod 16) :: byte) = b"
  by simp

lemma hex_decode_encode: "hex_decode (hex_encode bs) = bs"
  by (induction bs) (simp_all add: hex_val_hex_char byte_nibbles byte_of_nibbles)

lemma hex_encode_no_colon: "CHR '':'' \<notin> set (hex_encode bs)"
  by (induction bs) (simp_all add: hex_char_not_colon[symmetric] byte_nibbles)

lemma split_on_single: "c \<notin> set a \<Longrightarrow> split_on c a = [a]"
  by (induction a) auto

lemma split_on_field: "c \<notin> set a \<Longrightarrow> split_on c (a @ c # rest) = a # split_on c rest"
  by (induction a) auto

lemma split_three_hex:
  "split_on CHR '':'' (hex_encode a @ '':'' @ hex_encode b @ '':'' @ hex_encode c)
     = [hex_encode a, hex_encode b, hex_encode c]"
  using split_on_field[OF hex_encode_no_colon, of a "hex_encode b @ '':'' @ hex_encode c"]
    split_on_field[OF hex_encode_no_colon, of b "hex_encode c"]
    split_on_single[OF hex_encode_no_colon, of c]
  by simp

lemma length_hex_decode_encode: "length (hex_decode (hex_encode bs)) = length bs"
  by (simp add: hex_decode_encode)

section \<open>Encrypting and decrypting an endpoint\<close>

lemma decrypt_of_encrypt:
  assumes key: "length (hex_decode k) = 32"
    and iv: "iv \<noteq> []"
    and enc: "gcm_encrypt lib (hex_decode k) iv (utf8_encode v) = (ct, tag)"
    and tag: "valid_tag_length (length tag)"
    and dec: "gcm_decrypt lib (hex_decode k) iv ct tag = Some (utf8_encode v)"
  shows "encryptEndpoint lib iv v k
           = Inr (hex_encode iv @ '':'' @ hex_encode tag @ '':'' @ hex_encode ct)"
    and "decryptEndpoint lib (hex_encode iv @ '':'' @ hex_encode tag @ '':'' @ hex_encode ct) k
           = Inr (utf8_decode (utf8_encode v))"
proof -
  show "encryptEndpoint lib iv v k
           = Inr (hex_encode iv @ '':'' @ hex_encode tag @ '':'' @ hex_encode ct)"
    using key enc by (simp add: encryptEndpoint_def)
  show "decryptEndpoint lib (hex_encode iv @ '':'' @ hex_encode tag @ '':'' @ hex_encode ct) k
           = Inr (utf8_decode (utf8_encode v))"
    unfolding decryptEndpoint_def split_three_hex
    using key iv tag dec by (simp add: hex_decode_encode)
qed

text \<open>
  C9 (as amended). Let the key be 256 bits in hex and the nonce 12 bytes, and let the
  cipher return a 16-byte tag and decrypt, under the same key and nonce, what it
  encrypted. Then for every endpoint string without unpaired surrogates
  \<open>encryptEndpoint\<close> returns the three hex fields nonce, tag and ciphertext joined by
  colons, \<open>split\<close> separates exactly these three, and \<open>decryptEndpoint\<close> returns the
  endpoint.
\<close>

theorem endpoint_roundtrip:
  assumes key: "length (hex_decode k) = 32"
    and iv: "length iv = 12"
    and enc: "gcm_encrypt lib (hex_decode k) iv (utf8_encode v) = (ct, tag)"
    and tag: "length tag = 16"
    and dec: "gcm_decrypt lib (hex_decode k) iv ct tag = Some (utf8_encode v)"
    and wf: "well_formed (map unat v)"
  shows "encryptEndpoint lib iv v k
           = Inr (hex_encode iv @ '':'' @ hex_encode tag @ '':'' @ hex_encode ct) \<and>
         split_on CHR '':'' (hex_encode iv @ '':'' @ hex_encode tag @ '':'' @ hex_encode ct)
           = [hex_encode iv, hex_encode tag, hex_encode ct] \<and>
         decryptEndpoint lib (hex_encode iv @ '':'' @ hex_encode tag @ '':'' @ hex_encode ct) k
           = Inr v"
proof -
  have n: "iv \<noteq> []" using iv by auto
  have t: "valid_tag_length (length tag)" using tag by (simp add: valid_tag_length_def)
  show ?thesis
    using decrypt_of_encrypt[OF key n enc t dec] split_three_hex[of iv tag ct] utf8_roundtrip[OF wf]
    by simp
qed

text \<open>
  The sample cipher decrypts what it encrypted and returns 16-byte tags.
\<close>

lemma sample_lib_correct:
  "gcm_decrypt sample_lib key iv (fst (gcm_encrypt sample_lib key iv p))
     (snd (gcm_encrypt sample_lib key iv p)) = Some p"
  by (simp add: sample_lib_def sample_gcm_encrypt_def sample_gcm_decrypt_def comp_def)

lemma sample_tag_length: "length (snd (gcm_encrypt sample_lib key iv p)) = 16"
  by (simp add: sample_lib_def sample_gcm_encrypt_def)

lemma sample_key_length: "length (hex_decode sample_key) = 32"
  by (simp add: sample_key_def hex_val_def digit_val_def)

text \<open>
  The sample endpoint under the sample key and nonce.
\<close>

theorem endpoint_roundtrip_witness:
  "length (hex_decode sample_key) = 32 \<and> length sample_iv = 12 \<and>
   well_formed (map unat sample_endpoint) \<and>
   (\<exists>out. encryptEndpoint sample_lib sample_iv sample_endpoint sample_key = Inr out \<and>
          decryptEndpoint sample_lib out sample_key = Inr sample_endpoint)"
proof -
  have iv: "length sample_iv = 12" by (simp add: sample_iv_def)
  have wf: "well_formed (map unat sample_endpoint)"
    by (simp add: sample_endpoint_def is_high_def is_low_def)
  show ?thesis
    using endpoint_roundtrip[OF sample_key_length iv prod.collapse[symmetric] sample_tag_length
        sample_lib_correct wf] sample_key_length iv wf
    by simp
qed

text \<open>
  C9 as stated fails: the endpoint string that consists of the unpaired surrogate
  U+D800 is encrypted as the bytes of U+FFFD and decrypted as U+FFFD.
\<close>

theorem endpoint_roundtrip_counterexample:
  "(\<exists>out. encryptEndpoint sample_lib sample_iv [0xD800] sample_key = Inr out \<and>
          decryptEndpoint sample_lib out sample_key = Inr [0xFFFD]) \<and>
   [0xFFFD] \<noteq> ([0xD800] :: jsstring)"
proof -
  have iv: "sample_iv \<noteq> []" by (simp add: sample_iv_def)
  have t: "valid_tag_length (length (snd (gcm_encrypt sample_lib (hex_decode sample_key) sample_iv
             (utf8_encode [0xD800]))))"
    by (simp add: sample_tag_length valid_tag_length_def)
  show ?thesis
    using decrypt_of_encrypt[OF sample_key_length iv prod.collapse[symmetric] t sample_lib_correct]
      lone_surrogate_replaced
    by simp
qed

end
